theory Spec2Isabelle
  imports Main "HOL-Library.Char_ord" "HOL-Library.List_Lexorder"
begin

section \<open>The data model (models.py)\<close>

datatype MemberKind =
    MODULE | PACKAGE | CLASS | FUNCTION | METHOD | CLASSMETHOD | STATICMETHOD
  | PROPERTY | CONSTANT | VARIABLE | BUILTIN | DATA

datatype ParameterKind =
    POSITIONAL_ONLY | POSITIONAL_OR_KEYWORD | VAR_POSITIONAL | KEYWORD_ONLY | VAR_KEYWORD

record ParameterInfo =
  name :: string
  kind :: ParameterKind
  annotation :: "string option"
  default :: "string option"
  has_default :: bool

record SignatureInfo =
  parameters :: "ParameterInfo list"
  return_annotation :: "string option"
  raw_signature :: "string option"

record SourceInfo =
  source :: "string option"
  file_path :: "string option"
  start_line :: "int option"
  end_line :: "int option"
  is_builtin :: bool

record MemberInfo =
  name :: string
  kind :: MemberKind
  qualified_name :: string
  docstring :: "string option"
  signature :: "SignatureInfo option"
  source :: "SourceInfo option"
  is_private :: bool
  is_dunder :: bool
  defining_module :: "string option"
  is_imported :: bool
  value_repr :: "string option"

record ClassInfo = MemberInfo +
  bases :: "string list"
  mro :: "string list"
  methods :: "MemberInfo list"
  class_methods :: "MemberInfo list"
  static_methods :: "MemberInfo list"
  properties :: "MemberInfo list"
  class_variables :: "MemberInfo list"
  is_abstract :: bool

record ModuleInfo = MemberInfo +
  is_package :: bool
  file_path :: "string option"
  submodules :: "string list"
  classes :: "ClassInfo list"
  functions' :: "MemberInfo list"
  constants :: "MemberInfo list"
  variables :: "MemberInfo list"

text \<open>The field \<open>info\<close> of an InspectionResult is a MemberInfo, a ClassInfo or a ModuleInfo.\<close>

datatype Info = Member MemberInfo | Class ClassInfo | Module ModuleInfo

record InspectionResult =
  target :: string
  resolved_path :: string
  kind :: MemberKind
  info :: Info
  error :: "string option"

section \<open>Exceptions\<close>

text \<open>
  The exception classes that the handlers of inspector.py tell apart. \<open>OtherException\<close> is
  any other class derived from Exception (RuntimeError, SyntaxError, ...); \<open>BaseOnly\<close> is a
  class derived from BaseException but not from Exception (SystemExit, KeyboardInterrupt),
  which \<open>except Exception\<close> does not catch. The string is what \<open>str(e)\<close> gives.
\<close>

datatype exn =
    ImportError string | AttributeError string | ValueError string | TypeError string
  | OSError string | OtherException string | BaseOnly string

fun str_exn :: "exn \<Rightarrow> string" where
  "str_exn (ImportError m) = m"
| "str_exn (AttributeError m) = m"
| "str_exn (ValueError m) = m"
| "str_exn (TypeError m) = m"
| "str_exn (OSError m) = m"
| "str_exn (OtherException m) = m"
| "str_exn (BaseOnly m) = m"

fun is_Exception :: "exn \<Rightarrow> bool" where
  "is_Exception (BaseOnly m) = False"
| "is_Exception e = True"

section \<open>Strings\<close>

text \<open>\<open>s.split(".")\<close>: never empty; the empty string splits into one empty part.\<close>

fun split_dot :: "string \<Rightarrow> string list" where
  "split_dot [] = [Nil]"
| "split_dot (c # cs) =
     (if c = CHR ''.'' then [] # split_dot cs
      else (case split_dot cs of [] \<Rightarrow> [c # Nil] | w # ws \<Rightarrow> (c # w) # ws))"

text \<open>\<open>".".join(parts)\<close>\<close>

fun join_dot :: "string list \<Rightarrow> string" where
  "join_dot [] = []"
| "join_dot [w] = w"
| "join_dot (w # v # ws) = w @ ''.'' @ join_dot (v # ws)"

definition startswith :: "string \<Rightarrow> string \<Rightarrow> bool" where
  "startswith s pre = (take (length pre) s = pre)"

definition endswith :: "string \<Rightarrow> string \<Rightarrow> bool" where
  "endswith s suf = (drop (length s - length suf) s = suf \<and> length suf \<le> length s)"

text \<open>
  \<open>s.isupper()\<close> on ASCII names: at least one cased character, and no cased character is
  lower case.
\<close>

definition is_ascii_upper :: "char \<Rightarrow> bool" where
  "is_ascii_upper c = (CHR ''A'' \<le> c \<and> c \<le> CHR ''Z'')"

definition is_ascii_lower :: "char \<Rightarrow> bool" where
  "is_ascii_lower c = (CHR ''a'' \<le> c \<and> c \<le> CHR ''z'')"

definition isupper :: "string \<Rightarrow> bool" where
  "isupper s = (list_ex is_ascii_upper s \<and> \<not> list_ex is_ascii_lower s)"

section \<open>The reflection primitives\<close>

text \<open>
  Objects of the running interpreter are references; what importlib, inspect, pkgutil and
  the built-ins answer about them is a parameter of every function below. A primitive that
  the source calls inside a \<open>try\<close>, or that runs code of the inspected program, returns
  either an exception or its value.
\<close>

type_synonym obj = nat

datatype pytype =
    T_str | T_int | T_float | T_bool | T_NoneType | T_bytes | T_tuple
  | T_classmethod | T_staticmethod | T_property

datatype Parameter_kind =
    P_POSITIONAL_ONLY | P_POSITIONAL_OR_KEYWORD | P_VAR_POSITIONAL | P_KEYWORD_ONLY
  | P_VAR_KEYWORD

text \<open>
  An \<open>inspect.Parameter\<close>; \<open>None\<close> for \<open>default\<close> or \<open>annotation\<close> is
  \<open>inspect.Parameter.empty\<close>.
\<close>

record Parameter =
  kind :: Parameter_kind
  default :: "obj option"
  annotation :: "obj option"

text \<open>
  An \<open>inspect.Signature\<close>: \<open>parameters\<close> is the ordered mapping \<open>sig.parameters\<close>,
  \<open>sig_str\<close> is \<open>str(sig)\<close>.
\<close>

record Signature =
  parameters :: "(string \<times> Parameter) list"
  return_annotation :: "obj option"
  sig_str :: string

text \<open>One entry of \<open>inspect.classify_class_attrs(cls)\<close>.\<close>

record Attribute =
  name :: string
  kind :: string
  defining_class :: obj
  object :: obj

record provider =
  import_module :: "string \<Rightarrow> exn + obj"
  getattr :: "obj \<Rightarrow> string \<Rightarrow> exn + obj"
  ismodule :: "obj \<Rightarrow> bool"
  isclass :: "obj \<Rightarrow> bool"
  isbuiltin :: "obj \<Rightarrow> bool"
  isfunction :: "obj \<Rightarrow> bool"
  ismethod :: "obj \<Rightarrow> bool"
  isinstance :: "obj \<Rightarrow> pytype \<Rightarrow> bool"
  has_path :: "obj \<Rightarrow> bool"
  callable :: "obj \<Rightarrow> bool"
  inspect_signature :: "obj \<Rightarrow> exn + Signature"
  formatannotation :: "obj \<Rightarrow> string"
  repr :: "obj \<Rightarrow> exn + string"
  type_name :: "obj \<Rightarrow> string"
  getdoc :: "obj \<Rightarrow> exn + string option"
  getsource :: "obj \<Rightarrow> exn + string"
  getsourcefile :: "obj \<Rightarrow> exn + string option"
  getsourcelines :: "obj \<Rightarrow> exn + (string list \<times> int)"
  getfile :: "obj \<Rightarrow> exn + string"
  getmembers :: "obj \<Rightarrow> exn + (string \<times> obj) list"
  dunder_name :: "obj \<Rightarrow> string"
  dunder_module :: "obj \<Rightarrow> exn + string option"
  dunder_file :: "obj \<Rightarrow> string option"
  dunder_bases :: "obj \<Rightarrow> obj list"
  dunder_mro :: "obj \<Rightarrow> obj list"
  iter_modules :: "obj \<Rightarrow> string list \<times> exn option"
  classify_class_attrs :: "obj \<Rightarrow> exn + Attribute list"
  isabstract :: "obj \<Rightarrow> bool"
  object_class :: obj

section \<open>inspector.py\<close>

subsection \<open>resolve_dotted_path\<close>

text \<open>The inner loop \<open>for attr in parts[i:]: obj = getattr(obj, attr)\<close>.\<close>

fun traverse :: "provider \<Rightarrow> obj \<Rightarrow> string list \<Rightarrow> exn + obj" where
  "traverse p ob [] = Inr ob"
| "traverse p ob (a # as) =
     (case getattr p ob a of Inl e \<Rightarrow> Inl e | Inr ob' \<Rightarrow> traverse p ob' as)"

text \<open>The body of the \<open>try\<close> for one split index \<open>i\<close>.\<close>

definition try_split :: "provider \<Rightarrow> string list \<Rightarrow> nat \<Rightarrow> exn + (obj \<times> string \<times> string list)" where
  "try_split p parts i =
     (let module_path = join_dot (take i parts) in
      case import_module p module_path of
        Inl e \<Rightarrow> Inl e
      | Inr ob \<Rightarrow>
          (case traverse p ob (drop i parts) of
             Inl e \<Rightarrow> Inl e
           | Inr ob' \<Rightarrow> Inr (ob', module_path, drop i parts)))"

text \<open>
  \<open>for i in range(len(parts), 0, -1)\<close>, entered at \<open>i\<close>: ImportError and AttributeError
  move on to \<open>i - 1\<close>, any other exception leaves the function, and the loop running out
  raises the ImportError of the last line.
\<close>

fun resolve_from :: "provider \<Rightarrow> string \<Rightarrow> string list \<Rightarrow> nat \<Rightarrow> exn + (obj \<times> string \<times> string list)" where
  "resolve_from p path parts 0 = Inl (ImportError (''Cannot resolve path: '' @ path))"
| "resolve_from p path parts (Suc i) =
     (case try_split p parts (Suc i) of
        Inr r \<Rightarrow> Inr r
      | Inl (ImportError m) \<Rightarrow> resolve_from p path parts i
      | Inl (AttributeError m) \<Rightarrow> resolve_from p path parts i
      | Inl e \<Rightarrow> Inl e)"

definition resolve_dotted_path :: "provider \<Rightarrow> string \<Rightarrow> exn + (obj \<times> string \<times> string list)" where
  "resolve_dotted_path p path =
     (let parts = split_dot path in resolve_from p path parts (length parts))"

subsection \<open>classify_object\<close>

definition classify_object :: "provider \<Rightarrow> obj \<Rightarrow> string \<Rightarrow> MemberKind" where
  "classify_object p ob nm =
     (if ismodule p ob then (if has_path p ob then PACKAGE else MODULE)
      else if isclass p ob then CLASS
      else if isbuiltin p ob then BUILTIN
      else if isfunction p ob then FUNCTION
      else if ismethod p ob then METHOD
      else if isinstance p ob T_classmethod then CLASSMETHOD
      else if isinstance p ob T_staticmethod then STATICMETHOD
      else if isinstance p ob T_property then PROPERTY
      else if nm \<noteq> [] \<and> isupper nm
              \<and> list_ex (isinstance p ob)
                   [T_str, T_int, T_float, T_bool, T_NoneType, T_bytes, T_tuple]
           then CONSTANT
      else VARIABLE)"

subsection \<open>extract_signature\<close>

fun kind_map :: "Parameter_kind \<Rightarrow> ParameterKind" where
  "kind_map P_POSITIONAL_ONLY = POSITIONAL_ONLY"
| "kind_map P_POSITIONAL_OR_KEYWORD = POSITIONAL_OR_KEYWORD"
| "kind_map P_VAR_POSITIONAL = VAR_POSITIONAL"
| "kind_map P_KEYWORD_ONLY = KEYWORD_ONLY"
| "kind_map P_VAR_KEYWORD = VAR_KEYWORD"

definition format_annotation :: "provider \<Rightarrow> obj option \<Rightarrow> string option" where
  "format_annotation p ann =
     (case ann of None \<Rightarrow> None | Some a \<Rightarrow> Some (formatannotation p a))"

text \<open>\<open>repr(param.default) if has_default else None\<close>; the \<open>repr\<close> is outside every \<open>try\<close>.\<close>

definition default_repr :: "provider \<Rightarrow> obj option \<Rightarrow> exn + string option" where
  "default_repr p d =
     (case d of
        None \<Rightarrow> Inr None
      | Some v \<Rightarrow> (case repr p v of Inl e \<Rightarrow> Inl e | Inr s \<Rightarrow> Inr (Some s)))"

text \<open>The loop over \<open>sig.parameters.items()\<close>.\<close>

fun build_params :: "provider \<Rightarrow> (string \<times> Parameter) list \<Rightarrow> exn + ParameterInfo list" where
  "build_params p [] = Inr []"
| "build_params p ((param_name, param) # rest) =
     (case default_repr p (Parameter.default param) of
        Inl e \<Rightarrow> Inl e
      | Inr d \<Rightarrow>
          (case build_params p rest of
             Inl e \<Rightarrow> Inl e
           | Inr infos \<Rightarrow>
               Inr (\<lparr>ParameterInfo.name = param_name,
                     ParameterInfo.kind = kind_map (Parameter.kind param),
                     ParameterInfo.annotation = format_annotation p (Parameter.annotation param),
                     ParameterInfo.default = d,
                     has_default = (Parameter.default param \<noteq> None)\<rparr> # infos)))"

definition extract_signature :: "provider \<Rightarrow> obj \<Rightarrow> exn + SignatureInfo option" where
  "extract_signature p ob =
     (case inspect_signature p ob of
        Inl (ValueError m) \<Rightarrow> Inr None
      | Inl (TypeError m) \<Rightarrow> Inr None
      | Inl e \<Rightarrow> Inl e
      | Inr sg \<Rightarrow>
          (case build_params p (Signature.parameters sg) of
             Inl e \<Rightarrow> Inl e
           | Inr params \<Rightarrow>
               Inr (Some \<lparr>SignatureInfo.parameters = params,
                          SignatureInfo.return_annotation =
                            format_annotation p (Signature.return_annotation sg),
                          raw_signature = Some (sig_str sg)\<rparr>)))"

subsection \<open>extract_source\<close>

definition source_body :: "provider \<Rightarrow> obj \<Rightarrow> exn + SourceInfo" where
  "source_body p ob =
     (case getsource p ob of
        Inl e \<Rightarrow> Inl e
      | Inr src \<Rightarrow>
          (case getsourcefile p ob of
             Inl e \<Rightarrow> Inl e
           | Inr source_file \<Rightarrow>
               (case getsourcelines p ob of
                  Inl e \<Rightarrow> Inl e
                | Inr (lines, start) \<Rightarrow>
                    Inr \<lparr>SourceInfo.source = Some src,
                         SourceInfo.file_path = source_file,
                         start_line = Some start,
                         end_line = Some (start + int (length lines) - 1),
                         is_builtin = False\<rparr>)))"

definition builtin_source :: "provider \<Rightarrow> obj \<Rightarrow> exn + SourceInfo" where
  "builtin_source p ob =
     (case getfile p ob of
        Inl (TypeError m) \<Rightarrow>
          Inr \<lparr>SourceInfo.source = None, SourceInfo.file_path = None, start_line = None,
               end_line = None, is_builtin = True\<rparr>
      | Inl e \<Rightarrow> Inl e
      | Inr f \<Rightarrow>
          Inr \<lparr>SourceInfo.source = None, SourceInfo.file_path = Some f, start_line = None,
               end_line = None, is_builtin = True\<rparr>)"

definition extract_source :: "provider \<Rightarrow> obj \<Rightarrow> exn + SourceInfo" where
  "extract_source p ob =
     (case source_body p ob of
        Inr si \<Rightarrow> Inr si
      | Inl (OSError m) \<Rightarrow> builtin_source p ob
      | Inl (TypeError m) \<Rightarrow> builtin_source p ob
      | Inl e \<Rightarrow> Inl e)"

subsection \<open>_safe_repr and _create_member_info\<close>

definition max_len :: nat where
  "max_len = 80"

definition safe_repr :: "provider \<Rightarrow> obj \<Rightarrow> exn + string" where
  "safe_repr p ob =
     (case repr p ob of
        Inr r \<Rightarrow> Inr (if length r > max_len then take (max_len - 3) r @ ''...'' else r)
      | Inl e \<Rightarrow> (if is_Exception e then Inr (''<'' @ type_name p ob @ ''>'') else Inl e))"

definition create_member_info ::
  "provider \<Rightarrow> obj \<Rightarrow> string \<Rightarrow> MemberKind \<Rightarrow> string \<Rightarrow> bool \<Rightarrow> exn + MemberInfo" where
  "create_member_info p ob nm k parent_path imported =
     (case getdoc p ob of
        Inl e \<Rightarrow> Inl e
      | Inr doc \<Rightarrow>
          (case (if callable p ob then extract_signature p ob else Inr None) of
             Inl e \<Rightarrow> Inl e
           | Inr sg \<Rightarrow>
               Inr \<lparr>MemberInfo.name = nm,
                    MemberInfo.kind = k,
                    qualified_name = parent_path @ ''.'' @ nm,
                    docstring = doc,
                    signature = sg,
                    MemberInfo.source = None,
                    is_private = startswith nm ''_'',
                    is_dunder = (startswith nm ''__'' \<and> endswith nm ''__''),
                    defining_module = None,
                    is_imported = imported,
                    value_repr = None\<rparr>))"

subsection \<open>inspect_class\<close>

text \<open>The five lists that the loop of inspect_class appends to.\<close>

record class_lists =
  l_methods :: "MemberInfo list"
  l_class_methods :: "MemberInfo list"
  l_static_methods :: "MemberInfo list"
  l_properties :: "MemberInfo list"
  l_class_variables :: "MemberInfo list"

definition empty_class_lists :: class_lists where
  "empty_class_lists =
     \<lparr>l_methods = [], l_class_methods = [], l_static_methods = [], l_properties = [],
      l_class_variables = []\<rparr>"

text \<open>\<open>member_kind_map.get(attr.kind, MemberKind.VARIABLE)\<close>\<close>

definition member_kind_map :: "string \<Rightarrow> MemberKind" where
  "member_kind_map k =
     (if k = ''method'' then METHOD
      else if k = ''class method'' then CLASSMETHOD
      else if k = ''static method'' then STATICMETHOD
      else if k = ''property'' then PROPERTY
      else if k = ''data'' then DATA
      else VARIABLE)"

text \<open>One iteration of the loop over \<open>inspect.classify_class_attrs(cls)\<close>.\<close>

definition class_step ::
  "provider \<Rightarrow> obj \<Rightarrow> string \<Rightarrow> bool \<Rightarrow> Attribute \<Rightarrow> class_lists \<Rightarrow> exn + class_lists" where
  "class_step p cls qn include_private attr ls =
     (if \<not> include_private \<and> startswith (Attribute.name attr) ''_'' then Inr ls
      else
        (case create_member_info p (object attr) (Attribute.name attr)
                (member_kind_map (Attribute.kind attr)) qn (defining_class attr \<noteq> cls) of
           Inl e \<Rightarrow> Inl e
         | Inr mi \<Rightarrow>
             (if Attribute.kind attr = ''method''
                then Inr (ls\<lparr>l_methods := l_methods ls @ [mi]\<rparr>)
              else if Attribute.kind attr = ''class method''
                then Inr (ls\<lparr>l_class_methods := l_class_methods ls @ [mi]\<rparr>)
              else if Attribute.kind attr = ''static method''
                then Inr (ls\<lparr>l_static_methods := l_static_methods ls @ [mi]\<rparr>)
              else if Attribute.kind attr = ''property''
                then Inr (ls\<lparr>l_properties := l_properties ls @ [mi]\<rparr>)
              else if Attribute.kind attr = ''data''
                then (case safe_repr p (object attr) of
                        Inl e \<Rightarrow> Inl e
                      | Inr r \<Rightarrow>
                          Inr (ls\<lparr>l_class_variables :=
                                     l_class_variables ls @ [mi\<lparr>value_repr := Some r\<rparr>]\<rparr>))
              else Inr ls)))"

fun class_loop ::
  "provider \<Rightarrow> obj \<Rightarrow> string \<Rightarrow> bool \<Rightarrow> Attribute list \<Rightarrow> class_lists \<Rightarrow> exn + class_lists" where
  "class_loop p cls qn include_private [] ls = Inr ls"
| "class_loop p cls qn include_private (attr # rest) ls =
     (case class_step p cls qn include_private attr ls of
        Inl e \<Rightarrow> Inl e
      | Inr ls' \<Rightarrow> class_loop p cls qn include_private rest ls')"

text \<open>\<open>xs[1:-1]\<close>\<close>

definition slice_1_m1 :: "'a list \<Rightarrow> 'a list" where
  "slice_1_m1 xs = butlast (tl xs)"

definition inspect_class :: "provider \<Rightarrow> obj \<Rightarrow> string \<Rightarrow> bool \<Rightarrow> exn + ClassInfo" where
  "inspect_class p cls qn include_private =
     (case classify_class_attrs p cls of
        Inl e \<Rightarrow> Inl e
      | Inr attrs \<Rightarrow>
     (case class_loop p cls qn include_private attrs empty_class_lists of
        Inl e \<Rightarrow> Inl e
      | Inr ls \<Rightarrow>
     (case getdoc p cls of
        Inl e \<Rightarrow> Inl e
      | Inr doc \<Rightarrow>
     (case extract_signature p cls of
        Inl e \<Rightarrow> Inl e
      | Inr sg \<Rightarrow>
          Inr \<lparr>MemberInfo.name = dunder_name p cls,
               MemberInfo.kind = CLASS,
               qualified_name = qn,
               docstring = doc,
               signature = sg,
               MemberInfo.source = None,
               is_private = False,
               is_dunder = False,
               defining_module = None,
               is_imported = False,
               value_repr = None,
               bases = map (dunder_name p)
                         (filter (\<lambda>b. b \<noteq> object_class p) (dunder_bases p cls)),
               mro = map (dunder_name p) (slice_1_m1 (dunder_mro p cls)),
               methods = sort_key MemberInfo.name (l_methods ls),
               class_methods = sort_key MemberInfo.name (l_class_methods ls),
               static_methods = sort_key MemberInfo.name (l_static_methods ls),
               properties = sort_key MemberInfo.name (l_properties ls),
               class_variables = sort_key MemberInfo.name (l_class_variables ls),
               is_abstract = isabstract p cls\<rparr>))))"

subsection \<open>inspect_module\<close>

text \<open>
  Submodule discovery: the names that \<open>pkgutil.iter_modules\<close> yields before it stops or
  raises; \<open>except Exception: pass\<close> keeps what was appended so far.
\<close>

definition discover_submodules :: "provider \<Rightarrow> obj \<Rightarrow> exn + string list" where
  "discover_submodules p m =
     (if has_path p m then
        (case iter_modules p m of
           (names, None) \<Rightarrow> Inr names
         | (names, Some e) \<Rightarrow> (if is_Exception e then Inr names else Inl e))
      else Inr [])"

text \<open>The four lists that the loop of inspect_module appends to.\<close>

record module_lists =
  l_classes :: "ClassInfo list"
  l_functions :: "MemberInfo list"
  l_constants :: "MemberInfo list"
  l_variables :: "MemberInfo list"

definition empty_module_lists :: module_lists where
  "empty_module_lists = \<lparr>l_classes = [], l_functions = [], l_constants = [], l_variables = []\<rparr>"

text \<open>
  \<open>is_imported = obj_module is not None and obj_module != module_name\<close>, on the value of
  \<open>getattr(obj, "__module__", None)\<close>.
\<close>

definition is_imported_from :: "string option \<Rightarrow> string \<Rightarrow> bool" where
  "is_imported_from obj_module module_name =
     (case obj_module of None \<Rightarrow> False | Some om \<Rightarrow> om \<noteq> module_name)"

text \<open>What the loop does with a binding that passed the three filters.\<close>

definition add_member ::
  "provider \<Rightarrow> string \<Rightarrow> bool \<Rightarrow> string \<Rightarrow> obj \<Rightarrow> bool \<Rightarrow> module_lists \<Rightarrow> exn + module_lists" where
  "add_member p module_name include_private nm ob imported ls =
     (let k = classify_object p ob nm in
      if k = CLASS then
        (case inspect_class p ob (module_name @ ''.'' @ nm) include_private of
           Inl e \<Rightarrow> Inl e
         | Inr ci \<Rightarrow> Inr (ls\<lparr>l_classes := l_classes ls @ [ci]\<rparr>))
      else if k = FUNCTION \<or> k = BUILTIN then
        (case create_member_info p ob nm k module_name imported of
           Inl e \<Rightarrow> Inl e
         | Inr mi \<Rightarrow> Inr (ls\<lparr>l_functions := l_functions ls @ [mi]\<rparr>))
      else if k = CONSTANT then
        (case create_member_info p ob nm k module_name imported of
           Inl e \<Rightarrow> Inl e
         | Inr mi \<Rightarrow>
             (case safe_repr p ob of
                Inl e \<Rightarrow> Inl e
              | Inr r \<Rightarrow> Inr (ls\<lparr>l_constants := l_constants ls @ [mi\<lparr>value_repr := Some r\<rparr>]\<rparr>)))
      else if k = VARIABLE then
        (case create_member_info p ob nm k module_name imported of
           Inl e \<Rightarrow> Inl e
         | Inr mi \<Rightarrow>
             (case safe_repr p ob of
                Inl e \<Rightarrow> Inl e
              | Inr r \<Rightarrow> Inr (ls\<lparr>l_variables := l_variables ls @ [mi\<lparr>value_repr := Some r\<rparr>]\<rparr>)))
      else Inr ls)"

text \<open>One iteration of the loop over \<open>inspect.getmembers(module)\<close>.\<close>

definition module_step ::
  "provider \<Rightarrow> string \<Rightarrow> bool \<Rightarrow> bool \<Rightarrow> string \<Rightarrow> obj \<Rightarrow> module_lists \<Rightarrow> exn + module_lists" where
  "module_step p module_name include_private include_imported nm ob ls =
     (if \<not> include_private \<and> startswith nm ''_'' then Inr ls
      else if ismodule p ob then Inr ls
      else
        (case dunder_module p ob of
           Inl e \<Rightarrow> Inl e
         | Inr obj_module \<Rightarrow>
             (if \<not> include_imported \<and> is_imported_from obj_module module_name then Inr ls
              else add_member p module_name include_private nm ob
                     (is_imported_from obj_module module_name) ls)))"

fun module_loop ::
  "provider \<Rightarrow> string \<Rightarrow> bool \<Rightarrow> bool \<Rightarrow> (string \<times> obj) list \<Rightarrow> module_lists \<Rightarrow> exn + module_lists" where
  "module_loop p module_name include_private include_imported [] ls = Inr ls"
| "module_loop p module_name include_private include_imported ((nm, ob) # rest) ls =
     (case module_step p module_name include_private include_imported nm ob ls of
        Inl e \<Rightarrow> Inl e
      | Inr ls' \<Rightarrow> module_loop p module_name include_private include_imported rest ls')"

definition inspect_module :: "provider \<Rightarrow> obj \<Rightarrow> bool \<Rightarrow> bool \<Rightarrow> exn + ModuleInfo" where
  "inspect_module p m include_private include_imported =
     (let module_name = dunder_name p m in
      case discover_submodules p m of
        Inl e \<Rightarrow> Inl e
      | Inr subs \<Rightarrow>
     (case getmembers p m of
        Inl e \<Rightarrow> Inl e
      | Inr members \<Rightarrow>
     (case module_loop p module_name include_private include_imported members
             empty_module_lists of
        Inl e \<Rightarrow> Inl e
      | Inr ls \<Rightarrow>
     (case getdoc p m of
        Inl e \<Rightarrow> Inl e
      | Inr doc \<Rightarrow>
          Inr \<lparr>MemberInfo.name = last (split_dot module_name),
               MemberInfo.kind = (if subs \<noteq> [] then PACKAGE else MODULE),
               qualified_name = module_name,
               docstring = doc,
               signature = None,
               MemberInfo.source = None,
               is_private = False,
               is_dunder = False,
               defining_module = None,
               is_imported = False,
               value_repr = None,
               is_package = (subs \<noteq> [] \<or> has_path p m),
               ModuleInfo.file_path = dunder_file p m,
               submodules = sort subs,
               classes = sort_key MemberInfo.name (l_classes ls),
               functions' = sort_key MemberInfo.name (l_functions ls),
               constants = sort_key MemberInfo.name (l_constants ls),
               variables = sort_key MemberInfo.name (l_variables ls)\<rparr>))))"

subsection \<open>inspect_path\<close>

text \<open>\<open>"." in path\<close>\<close>

definition has_dot :: "string \<Rightarrow> bool" where
  "has_dot path = (CHR ''.'' \<in> set path)"

text \<open>The info built for an entity that is neither a module nor a class.\<close>

definition leaf_info :: "provider \<Rightarrow> string \<Rightarrow> obj \<Rightarrow> MemberKind \<Rightarrow> exn + MemberInfo" where
  "leaf_info p path ob k =
     (let parent_path = (if has_dot path then join_dot (butlast (split_dot path)) else []) in
      case create_member_info p ob (last (split_dot path)) k parent_path False of
        Inl e \<Rightarrow> Inl e
      | Inr mi \<Rightarrow>
          (case extract_source p ob of
             Inl e \<Rightarrow> Inl e
           | Inr si \<Rightarrow> Inr (mi\<lparr>MemberInfo.source := Some si\<rparr>)))"

text \<open>The dispatch on the kind, inside the \<open>try\<close> of inspect_path.\<close>

definition dispatch ::
  "provider \<Rightarrow> string \<Rightarrow> obj \<Rightarrow> MemberKind \<Rightarrow> bool \<Rightarrow> bool \<Rightarrow> exn + Info" where
  "dispatch p path ob k include_private include_imported =
     (if k = MODULE \<or> k = PACKAGE then
        (case inspect_module p ob include_private include_imported of
           Inl e \<Rightarrow> Inl e
         | Inr mo \<Rightarrow> Inr (Module mo))
      else if k = CLASS then
        (case inspect_class p ob path include_private of
           Inl e \<Rightarrow> Inl e
         | Inr ci \<Rightarrow> Inr (Class ci))
      else
        (case leaf_info p path ob k of
           Inl e \<Rightarrow> Inl e
         | Inr mi \<Rightarrow> Inr (Member mi)))"

text \<open>The body of the \<open>try\<close> of inspect_path.\<close>

definition inspect_body :: "provider \<Rightarrow> string \<Rightarrow> bool \<Rightarrow> bool \<Rightarrow> exn + InspectionResult" where
  "inspect_body p path include_private include_imported =
     (case resolve_dotted_path p path of
        Inl e \<Rightarrow> Inl e
      | Inr (ob, module_path, attrs) \<Rightarrow>
          (let k = classify_object p ob (if has_dot path then last (split_dot path) else path) in
           case dispatch p path ob k include_private include_imported of
             Inl e \<Rightarrow> Inl e
           | Inr i \<Rightarrow>
               Inr \<lparr>target = path, resolved_path = path, InspectionResult.kind = k, info = i,
                    error = None\<rparr>))"

text \<open>The envelope of the \<open>except Exception as e\<close> branch.\<close>

definition degraded :: "string \<Rightarrow> exn \<Rightarrow> InspectionResult" where
  "degraded path e =
     \<lparr>target = path, resolved_path = path, InspectionResult.kind = VARIABLE,
      info = Member \<lparr>MemberInfo.name = path, MemberInfo.kind = VARIABLE, qualified_name = path,
                     docstring = None, signature = None, MemberInfo.source = None,
                     is_private = False, is_dunder = False, defining_module = None,
                     is_imported = False, value_repr = None\<rparr>,
      error = Some (str_exn e)\<rparr>"

definition inspect_path :: "provider \<Rightarrow> string \<Rightarrow> bool \<Rightarrow> bool \<Rightarrow> exn + InspectionResult" where
  "inspect_path p path include_private include_imported =
     (case inspect_body p path include_private include_imported of
        Inr res \<Rightarrow> Inr res
      | Inl e \<Rightarrow> (if is_Exception e then Inr (degraded path e) else Inl e))"

text \<open>The qualified name and the kind of whichever record an envelope carries.\<close>

fun info_qualified_name :: "Info \<Rightarrow> string" where
  "info_qualified_name (Member mi) = qualified_name mi"
| "info_qualified_name (Class ci) = qualified_name ci"
| "info_qualified_name (Module mo) = qualified_name mo"

fun info_kind :: "Info \<Rightarrow> MemberKind" where
  "info_kind (Member mi) = MemberInfo.kind mi"
| "info_kind (Class ci) = MemberInfo.kind ci"
| "info_kind (Module mo) = MemberInfo.kind mo"

section \<open>Conditions on the primitives, used in the statements\<close>

text \<open>The exceptions that make resolve_dotted_path move on to the next shorter prefix.\<close>

fun is_caught :: "exn \<Rightarrow> bool" where
  "is_caught (ImportError m) = True"
| "is_caught (AttributeError m) = True"
| "is_caught e = False"

text \<open>A split is abandoned when its \<open>try\<close> body raised ImportError or AttributeError.\<close>

definition abandoned :: "exn + 'a \<Rightarrow> bool" where
  "abandoned r = (case r of Inl e \<Rightarrow> is_caught e | Inr x \<Rightarrow> False)"





text \<open>Each of the five buckets of a ClassInfo is ascending by name.\<close>

definition class_buckets_sorted :: "ClassInfo \<Rightarrow> bool" where
  "class_buckets_sorted ci =
     (sorted (map MemberInfo.name (methods ci))
      \<and> sorted (map MemberInfo.name (class_methods ci))
      \<and> sorted (map MemberInfo.name (static_methods ci))
      \<and> sorted (map MemberInfo.name (properties ci))
      \<and> sorted (map MemberInfo.name (class_variables ci)))"


text \<open>
  The record that the loop has appended for a binding, by the kind of the binding: in the
  list of functions, of constants or of variables.
\<close>

definition appended :: "module_lists \<Rightarrow> MemberKind \<Rightarrow> MemberInfo list" where
  "appended ls k =
     (if k = FUNCTION \<or> k = BUILTIN then l_functions ls
      else if k = CONSTANT then l_constants ls
      else if k = VARIABLE then l_variables ls
      else [])"


section \<open>Example interpreters\<close>

text \<open>An interpreter in which nothing can be imported and no object is known.\<close>

definition base_provider :: provider where
  "base_provider =
     \<lparr>import_module = (\<lambda>nm. Inl (ImportError (''No module named '' @ nm))),
      getattr = (\<lambda>ob a. Inl (AttributeError a)),
      ismodule = (\<lambda>ob. False),
      isclass = (\<lambda>ob. False),
      isbuiltin = (\<lambda>ob. False),
      isfunction = (\<lambda>ob. False),
      ismethod = (\<lambda>ob. False),
      isinstance = (\<lambda>ob t. False),
      has_path = (\<lambda>ob. False),
      callable = (\<lambda>ob. False),
      inspect_signature = (\<lambda>ob. Inl (TypeError ''not a callable object'')),
      formatannotation = (\<lambda>ob. ''Any''),
      repr = (\<lambda>ob. Inr ''<object>''),
      type_name = (\<lambda>ob. ''object''),
      getdoc = (\<lambda>ob. Inr None),
      getsource = (\<lambda>ob. Inl (OSError ''could not get source code'')),
      getsourcefile = (\<lambda>ob. Inr None),
      getsourcelines = (\<lambda>ob. Inl (OSError ''could not get source code'')),
      getfile = (\<lambda>ob. Inl (TypeError ''is a built-in'')),
      getmembers = (\<lambda>ob. Inr []),
      dunder_name = (\<lambda>ob. ''object''),
      dunder_module = (\<lambda>ob. Inr None),
      dunder_file = (\<lambda>ob. None),
      dunder_bases = (\<lambda>ob. []),
      dunder_mro = (\<lambda>ob. []),
      iter_modules = (\<lambda>ob. ([], None)),
      classify_class_attrs = (\<lambda>ob. Inr []),
      isabstract = (\<lambda>ob. False),
      object_class = 0\<rparr>"

text \<open>
  A package \<open>pkg\<close> (object 1) with one submodule \<open>pkg.sub\<close> (object 2). The submodule binds
  a constant \<open>LIMIT\<close> (6), a class \<open>Widget\<close> (7) derived from \<open>Shape\<close> (12), a private
  \<open>_secret\<close> (8), a function \<open>helper(a, b=1, *args, c, **kwargs)\<close> (3), a function \<open>join\<close>
  (9) imported from posixpath, a callable instance \<open>HANDLER\<close> (17) and a variable \<open>state\<close>
  (10) whose \<open>repr\<close> raises. The package itself binds \<open>sub\<close> to another object (4) that
  also has an attribute \<open>helper\<close> (5). Objects 18 to 22 are a native callable, a bound
  method, a classmethod object, a staticmethod object and a property.
\<close>

definition helper_signature :: Signature where
  "helper_signature =
     \<lparr>Signature.parameters =
        [(''a'', \<lparr>Parameter.kind = P_POSITIONAL_OR_KEYWORD, default = None, annotation = None\<rparr>),
         (''b'', \<lparr>Parameter.kind = P_POSITIONAL_OR_KEYWORD, default = Some 11, annotation = None\<rparr>),
         (''args'', \<lparr>Parameter.kind = P_VAR_POSITIONAL, default = None, annotation = None\<rparr>),
         (''c'', \<lparr>Parameter.kind = P_KEYWORD_ONLY, default = None, annotation = None\<rparr>),
         (''kwargs'', \<lparr>Parameter.kind = P_VAR_KEYWORD, default = None, annotation = None\<rparr>)],
      return_annotation = None,
      sig_str = ''(a, b=1, *args, c, **kwargs)''\<rparr>"

definition widget_attrs :: "Attribute list" where
  "widget_attrs =
     [\<lparr>Attribute.name = ''draw'', kind = ''method'', defining_class = 7, object = 13\<rparr>,
      \<lparr>Attribute.name = ''area'', kind = ''method'', defining_class = 12, object = 14\<rparr>,
      \<lparr>Attribute.name = ''color'', kind = ''data'', defining_class = 7, object = 15\<rparr>,
      \<lparr>Attribute.name = ''_cache'', kind = ''data'', defining_class = 7, object = 16\<rparr>]"

definition demo :: provider where
  "demo = base_provider
     \<lparr>import_module :=
        (\<lambda>nm. if nm = ''pkg'' then Inr 1
              else if nm = ''pkg.sub'' then Inr 2
              else Inl (ImportError (''No module named '' @ nm))),
      getattr :=
        (\<lambda>ob a. if ob = 1 \<and> a = ''sub'' then Inr 4
                else if ob = 4 \<and> a = ''helper'' then Inr 5
                else if ob = 2 \<and> a = ''helper'' then Inr 3
                else if ob = 2 \<and> a = ''Widget'' then Inr 7
                else if ob = 2 \<and> a = ''LIMIT'' then Inr 6
                else Inl (AttributeError a)),
      ismodule := (\<lambda>ob. ob = 1 \<or> ob = 2),
      isclass := (\<lambda>ob. ob = 7 \<or> ob = 12 \<or> ob = 0),
      isbuiltin := (\<lambda>ob. ob = 18),
      isfunction := (\<lambda>ob. ob = 3 \<or> ob = 9 \<or> ob = 13 \<or> ob = 14),
      ismethod := (\<lambda>ob. ob = 19),
      isinstance :=
        (\<lambda>ob t. ((ob = 6 \<or> ob = 11) \<and> t = T_int) \<or> (ob = 20 \<and> t = T_classmethod)
                 \<or> (ob = 21 \<and> t = T_staticmethod) \<or> (ob = 22 \<and> t = T_property)),
      has_path := (\<lambda>ob. ob = 1),
      callable :=
        (\<lambda>ob. ob = 3 \<or> ob = 7 \<or> ob = 9 \<or> ob = 13 \<or> ob = 14 \<or> ob = 17 \<or> ob = 18
               \<or> ob = 19),
      inspect_signature :=
        (\<lambda>ob. if ob = 3 then Inr helper_signature
              else if ob = 7 then Inl (ValueError ''no signature found'')
              else Inl (TypeError ''unsupported callable'')),
      repr :=
        (\<lambda>ob. if ob = 6 then Inr ''100''
              else if ob = 11 then Inr ''1''
              else if ob = 10 then Inl (OtherException ''broken __repr__'')
              else Inr ''<object>''),
      type_name := (\<lambda>ob. if ob = 10 then ''State'' else ''object''),
      getmembers :=
        (\<lambda>ob. if ob = 2
              then Inr [(''HANDLER'', 17), (''LIMIT'', 6), (''Widget'', 7), (''_secret'', 8),
                        (''helper'', 3), (''join'', 9), (''state'', 10)]
              else Inr []),
      dunder_name :=
        (\<lambda>ob. if ob = 1 then ''pkg'' else if ob = 2 then ''pkg.sub''
              else if ob = 7 then ''Widget'' else if ob = 12 then ''Shape''
              else ''object''),
      dunder_module :=
        (\<lambda>ob. if ob = 3 \<or> ob = 7 \<or> ob = 10 \<or> ob = 17 then Inr (Some ''pkg.sub'')
              else if ob = 9 then Inr (Some ''posixpath'')
              else Inr None),
      dunder_bases := (\<lambda>ob. if ob = 7 then [12] else if ob = 12 then [0] else []),
      dunder_mro := (\<lambda>ob. if ob = 7 then [7, 12, 0] else if ob = 12 then [12, 0] else [ob]),
      iter_modules := (\<lambda>ob. if ob = 1 then ([''sub''], None) else ([], None)),
      classify_class_attrs := (\<lambda>ob. if ob = 7 then Inr widget_attrs else Inr [])\<rparr>"


text \<open>A module \<open>script\<close> whose top-level code calls \<open>sys.exit(0)\<close> when it is imported.\<close>

definition exiting :: provider where
  "exiting = base_provider
     \<lparr>import_module :=
        (\<lambda>nm. if nm = ''script'' then Inl (BaseOnly ''0'')
              else Inl (ImportError (''No module named '' @ nm)))\<rparr>"

text \<open>
  The name \<open>os.path\<close> is importable and gives a module (object 1) that records
  \<open>posixpath\<close> as its \<open>__name__\<close>.
\<close>

definition aliased :: provider where
  "aliased = base_provider
     \<lparr>import_module :=
        (\<lambda>nm. if nm = ''os'' then Inr 2 else if nm = ''os.path'' then Inr 1
              else Inl (ImportError (''No module named '' @ nm))),
      ismodule := (\<lambda>ob. ob = 1 \<or> ob = 2),
      dunder_name := (\<lambda>ob. if ob = 1 then ''posixpath'' else if ob = 2 then ''os'' else ''object'')\<rparr>"

text \<open>A module \<open>broken\<close> whose source has a syntax error: importing it raises SyntaxError.\<close>

definition broken_import :: provider where
  "broken_import = base_provider
     \<lparr>import_module :=
        (\<lambda>nm. if nm = ''broken'' then Inl (OtherException ''invalid syntax'')
              else Inl (ImportError (''No module named '' @ nm)))\<rparr>"

text \<open>
  A class \<open>TestCase\<close> (object 1) of a module \<open>mytests\<close> (3) that derives from a class of
  another module that is also called \<open>TestCase\<close> (2).
\<close>

definition same_name :: provider where
  "same_name = base_provider
     \<lparr>import_module :=
        (\<lambda>nm. if nm = ''mytests'' then Inr 3
              else Inl (ImportError (''No module named '' @ nm))),
      getattr := (\<lambda>ob a. if ob = 3 \<and> a = ''TestCase'' then Inr 1 else Inl (AttributeError a)),
      ismodule := (\<lambda>ob. ob = 3),
      isclass := (\<lambda>ob. ob = 0 \<or> ob = 1 \<or> ob = 2),
      callable := (\<lambda>ob. ob = 0 \<or> ob = 1 \<or> ob = 2),
      dunder_name := (\<lambda>ob. if ob = 1 \<or> ob = 2 then ''TestCase'' else if ob = 3 then ''mytests''
                           else ''object''),
      dunder_bases := (\<lambda>ob. if ob = 1 then [2] else if ob = 2 then [0] else []),
      dunder_mro := (\<lambda>ob. if ob = 1 then [1, 2, 0] else if ob = 2 then [2, 0] else [ob])\<rparr>"

text \<open>A package \<open>bare\<close> (object 1) that has a \<open>__path__\<close> and no submodule in it.\<close>

definition bare_package :: provider where
  "bare_package = base_provider
     \<lparr>import_module :=
        (\<lambda>nm. if nm = ''bare'' then Inr 1 else Inl (ImportError (''No module named '' @ nm))),
      ismodule := (\<lambda>ob. ob = 1),
      has_path := (\<lambda>ob. ob = 1),
      dunder_name := (\<lambda>ob. if ob = 1 then ''bare'' else ''object'')\<rparr>"

section \<open>Splitting and joining paths\<close>

lemma split_dot_not_Nil: "split_dot s \<noteq> []"
  by (induction s) (auto split: list.splits)

lemma join_dot_Cons: "ws \<noteq> [] \<Longrightarrow> join_dot (w # ws) = w @ ''.'' @ join_dot ws"
  by (cases ws) auto

lemma join_dot_split_dot: "join_dot (split_dot s) = s"
proof (induction s)
  case Nil
  show ?case by simp
next
  case (Cons c cs)
  show ?case
  proof (cases "c = CHR ''.''")
    case True
    with Cons show ?thesis by (simp add: join_dot_Cons split_dot_not_Nil)
  next
    case False
    obtain w ws where sp: "split_dot cs = w # ws"
      using split_dot_not_Nil [of cs] by (cases "split_dot cs") auto
    have "join_dot ((c # w) # ws) = c # join_dot (w # ws)"
      by (cases ws) auto
    with False sp Cons show ?thesis by simp
  qed
qed

lemma split_dot_no_dot: "\<not> has_dot s \<Longrightarrow> split_dot s = [s]"
  by (induction s) (auto simp: has_dot_def)

lemma split_dot_has_dot: "has_dot s \<Longrightarrow> 2 \<le> length (split_dot s)"
proof (induction s)
  case Nil
  then show ?case by (simp add: has_dot_def)
next
  case (Cons c cs)
  show ?case
  proof (cases "c = CHR ''.''")
    case True
    have "1 \<le> length (split_dot cs)"
      using split_dot_not_Nil [of cs] by (cases "split_dot cs") auto
    with True show ?thesis by simp
  next
    case False
    with Cons.prems have "has_dot cs" by (simp add: has_dot_def)
    from Cons.IH [OF this] False show ?thesis by (auto split: list.splits)
  qed
qed

lemma join_dot_butlast_last:
  "2 \<le> length ws \<Longrightarrow> join_dot (butlast ws) @ ''.'' @ last ws = join_dot ws"
proof (induction ws rule: join_dot.induct)
  case 1
  then show ?case by simp
next
  case (2 w)
  then show ?case by simp
next
  case (3 w v ws)
  show ?case
  proof (cases ws)
    case Nil
    then show ?thesis by simp
  next
    case (Cons u us)
    with 3 show ?thesis by simp
  qed
qed

lemma parent_dot_last:
  "has_dot s \<Longrightarrow> join_dot (butlast (split_dot s)) @ ''.'' @ last (split_dot s) = s"
  using join_dot_butlast_last [OF split_dot_has_dot] join_dot_split_dot by simp

section \<open>resolve_dotted_path\<close>

lemma resolve_from_skip:
  "i \<le> n \<Longrightarrow> (\<And>j. i < j \<Longrightarrow> j \<le> n \<Longrightarrow> abandoned (try_split p parts j)) \<Longrightarrow>
   resolve_from p path parts n = resolve_from p path parts i"
proof (induction n)
  case 0
  then show ?case by simp
next
  case (Suc n)
  show ?case
  proof (cases "i = Suc n")
    case True
    then show ?thesis by simp
  next
    case False
    with Suc.prems have le: "i \<le> n" and lt: "i < Suc n" by auto
    have ab: "abandoned (try_split p parts (Suc n))"
      using Suc.prems(2) [OF lt] by simp
    have "resolve_from p path parts (Suc n) = resolve_from p path parts n"
      using ab by (auto simp: abandoned_def split: sum.splits exn.splits)
    also have "\<dots> = resolve_from p path parts i"
      using le Suc.prems(2) by (intro Suc.IH) auto
    finally show ?thesis .
  qed
qed

lemma resolve_from_ImportError:
  "resolve_from p path parts n = Inl (ImportError m) \<Longrightarrow>
   m = ''Cannot resolve path: '' @ path \<and>
   (\<forall>j. 1 \<le> j \<and> j \<le> n \<longrightarrow> abandoned (try_split p parts j))"
proof (induction n)
  case 0
  then show ?case by simp
next
  case (Suc n)
  from Suc.prems have ab: "abandoned (try_split p parts (Suc n))"
    by (auto simp: abandoned_def split: sum.splits exn.splits)
  with Suc.prems have "resolve_from p path parts n = Inl (ImportError m)"
    by (auto simp: abandoned_def split: sum.splits exn.splits)
  from Suc.IH [OF this] ab show ?case
    by (auto simp: le_Suc_eq)
qed

lemma resolve_from_Inr:
  "resolve_from p path parts n = Inr r \<Longrightarrow>
   \<exists>i. 1 \<le> i \<and> i \<le> n \<and> try_split p parts i = Inr r
       \<and> (\<forall>j. i < j \<and> j \<le> n \<longrightarrow> abandoned (try_split p parts j))"
proof (induction n)
  case 0
  then show ?case by simp
next
  case (Suc n)
  show ?case
  proof (cases "try_split p parts (Suc n)")
    case (Inr r')
    with Suc.prems have "r' = r" by simp
    with Inr have "try_split p parts (Suc n) = Inr r" by simp
    then show ?thesis by (intro exI [of _ "Suc n"]) auto
  next
    case (Inl e)
    with Suc.prems have c: "is_caught e" by (cases e) auto
    with Inl have ab: "abandoned (try_split p parts (Suc n))"
      by (simp add: abandoned_def)
    from Inl c Suc.prems have "resolve_from p path parts n = Inr r"
      by (cases e) auto
    from Suc.IH [OF this] obtain i where
      i: "1 \<le> i" "i \<le> n" "try_split p parts i = Inr r"
        "\<forall>j. i < j \<and> j \<le> n \<longrightarrow> abandoned (try_split p parts j)"
      by blast
    have "\<forall>j. i < j \<and> j \<le> Suc n \<longrightarrow> abandoned (try_split p parts j)"
      using i(4) ab by (auto simp: le_Suc_eq)
    with i show ?thesis by (intro exI [of _ i]) simp
  qed
qed

lemma resolve_dotted_path_unfold:
  "resolve_dotted_path p path = resolve_from p path (split_dot path) (length (split_dot path))"
  by (simp add: resolve_dotted_path_def Let_def)

lemma resolve_from_at_success:
  "try_split p parts (Suc i) = Inr r \<Longrightarrow> resolve_from p path parts (Suc i) = Inr r"
  by simp

lemma resolve_from_at_uncaught:
  "try_split p parts (Suc i) = Inl e \<Longrightarrow> \<not> is_caught e \<Longrightarrow>
   resolve_from p path parts (Suc i) = Inl e"
  by (cases e) simp_all

lemma try_split_Inr:
  "try_split p parts i = Inr (ob, mp, attrs) \<Longrightarrow>
   mp = join_dot (take i parts) \<and> attrs = drop i parts \<and>
   (\<exists>m. import_module p mp = Inr m \<and> traverse p m attrs = Inr ob)"
  by (auto simp: try_split_def Let_def split: sum.splits)

lemma resolve_no_dot:
  "\<not> has_dot path \<Longrightarrow>
   resolve_dotted_path p path =
     (case import_module p path of
        Inr ob \<Rightarrow> Inr (ob, path, [])
      | Inl e \<Rightarrow> (if is_caught e then Inl (ImportError (''Cannot resolve path: '' @ path))
                  else Inl e))"
proof -
  assume nd: "\<not> has_dot path"
  have sp: "split_dot path = [path]" using nd by (rule split_dot_no_dot)
  show ?thesis
  proof (cases "import_module p path")
    case (Inl e)
    then show ?thesis
      by (cases e) (simp_all add: resolve_dotted_path_unfold sp try_split_def)
  next
    case (Inr ob)
    then show ?thesis
      by (simp add: resolve_dotted_path_unfold sp try_split_def)
  qed
qed

text \<open>
  Claim C3, as stated, fails: when no split succeeds, the error need not be the ImportError
  that carries the path. In \<open>broken_import\<close> the path \<open>broken\<close> has one split, its import
  raises a SyntaxError, and that exception leaves resolve_dotted_path as it is.
\<close>

theorem resolve_dotted_path_other_error_counterexample:
  "isl (try_split broken_import (split_dot ''broken'') 1)
   \<and> length (split_dot ''broken'') = 1
   \<and> resolve_dotted_path broken_import ''broken'' = Inl (OtherException ''invalid syntax'')
   \<and> resolve_dotted_path broken_import ''broken''
       \<noteq> Inl (ImportError (''Cannot resolve path: '' @ ''broken''))"
  by code_simp

text \<open>
  Claim C3, amended: resolve_dotted_path scans the splits from the longest namespace prefix
  to the shortest, and a split is given up only when its import or one of its attribute
  lookups raises ImportError or AttributeError. If the split at index \<open>i\<close> succeeds and
  every longer split was given up, its result is returned, whatever the shorter splits
  would do, and every result that is returned comes from such a split; if the split raises
  another exception and every longer split was given up, that exception leaves the
  function. The function fails with the ImportError that carries the
  original path if and only if every split is given up. A path with no separator has the
  whole string as its only candidate namespace.
\<close>

theorem resolve_dotted_path_longest_first:
  "(1 \<le> i \<and> i \<le> length (split_dot path)
      \<and> (\<forall>j. i < j \<and> j \<le> length (split_dot path)
             \<longrightarrow> abandoned (try_split p (split_dot path) j))
    \<longrightarrow> (\<forall>s. try_split p (split_dot path) i = Inr s
             \<longrightarrow> resolve_dotted_path p path = Inr s)
        \<and> (\<forall>e. try_split p (split_dot path) i = Inl e \<and> \<not> is_caught e
             \<longrightarrow> resolve_dotted_path p path = Inl e))
   \<and> ((\<forall>j. 1 \<le> j \<and> j \<le> length (split_dot path)
             \<longrightarrow> abandoned (try_split p (split_dot path) j))
        \<longleftrightarrow> resolve_dotted_path p path
              = Inl (ImportError (''Cannot resolve path: '' @ path)))
   \<and> (resolve_dotted_path p path = Inr r
        \<longrightarrow> (\<exists>k. 1 \<le> k \<and> k \<le> length (split_dot path)
                 \<and> try_split p (split_dot path) k = Inr r
                 \<and> (\<forall>j. k < j \<and> j \<le> length (split_dot path)
                        \<longrightarrow> abandoned (try_split p (split_dot path) j))))
   \<and> (try_split p (split_dot path) i = Inr (ob, mp, attrs)
        \<longrightarrow> mp = join_dot (take i (split_dot path)) \<and> attrs = drop i (split_dot path)
            \<and> (\<exists>m. import_module p mp = Inr m \<and> traverse p m attrs = Inr ob))
   \<and> (\<not> has_dot path
        \<longrightarrow> split_dot path = [path]
            \<and> resolve_dotted_path p path =
                (case import_module p path of
                   Inr ob \<Rightarrow> Inr (ob, path, [])
                 | Inl e \<Rightarrow> (if is_caught e
                             then Inl (ImportError (''Cannot resolve path: '' @ path))
                             else Inl e)))"
proof (intro conjI impI allI)
  fix s
  assume h: "1 \<le> i \<and> i \<le> length (split_dot path)
      \<and> (\<forall>j. i < j \<and> j \<le> length (split_dot path)
             \<longrightarrow> abandoned (try_split p (split_dot path) j))"
    and ok: "try_split p (split_dot path) i = Inr s"
  from h obtain k where k: "i = Suc k" by (cases i) auto
  have "resolve_from p path (split_dot path) (length (split_dot path))
        = resolve_from p path (split_dot path) i"
    using h by (intro resolve_from_skip) auto
  also have "\<dots> = Inr s"
    using ok unfolding k by (rule resolve_from_at_success)
  finally show "resolve_dotted_path p path = Inr s"
    by (simp add: resolve_dotted_path_unfold)
next
  fix e
  assume h: "1 \<le> i \<and> i \<le> length (split_dot path)
      \<and> (\<forall>j. i < j \<and> j \<le> length (split_dot path)
             \<longrightarrow> abandoned (try_split p (split_dot path) j))"
    and bad: "try_split p (split_dot path) i = Inl e \<and> \<not> is_caught e"
  from h obtain k where k: "i = Suc k" by (cases i) auto
  have "resolve_from p path (split_dot path) (length (split_dot path))
        = resolve_from p path (split_dot path) i"
    using h by (intro resolve_from_skip) auto
  also have "\<dots> = Inl e"
    using bad unfolding k by (intro resolve_from_at_uncaught) auto
  finally show "resolve_dotted_path p path = Inl e"
    by (simp add: resolve_dotted_path_unfold)
next
  show "(\<forall>j. 1 \<le> j \<and> j \<le> length (split_dot path)
             \<longrightarrow> abandoned (try_split p (split_dot path) j))
        \<longleftrightarrow> resolve_dotted_path p path
              = Inl (ImportError (''Cannot resolve path: '' @ path))"
  proof
    assume all: "\<forall>j. 1 \<le> j \<and> j \<le> length (split_dot path)
             \<longrightarrow> abandoned (try_split p (split_dot path) j)"
    have "resolve_from p path (split_dot path) (length (split_dot path))
          = resolve_from p path (split_dot path) 0"
      using all by (intro resolve_from_skip) auto
    then show "resolve_dotted_path p path
              = Inl (ImportError (''Cannot resolve path: '' @ path))"
      by (simp add: resolve_dotted_path_unfold)
  next
    assume "resolve_dotted_path p path
              = Inl (ImportError (''Cannot resolve path: '' @ path))"
    then have "resolve_from p path (split_dot path) (length (split_dot path))
               = Inl (ImportError (''Cannot resolve path: '' @ path))"
      by (simp add: resolve_dotted_path_unfold)
    from resolve_from_ImportError [OF this]
    show "\<forall>j. 1 \<le> j \<and> j \<le> length (split_dot path)
             \<longrightarrow> abandoned (try_split p (split_dot path) j)"
      by simp
  qed
next
  assume "resolve_dotted_path p path = Inr r"
  then have "resolve_from p path (split_dot path) (length (split_dot path)) = Inr r"
    by (simp add: resolve_dotted_path_unfold)
  from resolve_from_Inr [OF this]
  show "\<exists>k. 1 \<le> k \<and> k \<le> length (split_dot path)
          \<and> try_split p (split_dot path) k = Inr r
          \<and> (\<forall>j. k < j \<and> j \<le> length (split_dot path)
                 \<longrightarrow> abandoned (try_split p (split_dot path) j))" .
next
  assume "try_split p (split_dot path) i = Inr (ob, mp, attrs)"
  from try_split_Inr [OF this]
  show "mp = join_dot (take i (split_dot path))"
    and "attrs = drop i (split_dot path)"
    and "\<exists>m. import_module p mp = Inr m \<and> traverse p m attrs = Inr ob"
    by auto
next
  assume nd: "\<not> has_dot path"
  show "split_dot path = [path]" using nd by (rule split_dot_no_dot)
  show "resolve_dotted_path p path =
          (case import_module p path of
             Inr ob \<Rightarrow> Inr (ob, path, [])
           | Inl e \<Rightarrow> (if is_caught e
                       then Inl (ImportError (''Cannot resolve path: '' @ path))
                       else Inl e))"
    using nd by (rule resolve_no_dot)
qed

text \<open>
  In \<open>demo\<close>, the path \<open>pkg.sub.helper\<close> has three splits. The longest is given up
  (\<open>pkg.sub.helper\<close> is not a module), the split after \<open>pkg.sub\<close> succeeds and gives the
  function (object 3), although the split after \<open>pkg\<close> would succeed too and give another
  object (5). The path \<open>pkg\<close> has no separator and is imported as a whole. In
  \<open>base_provider\<close> the only split of \<open>zzz\<close> is given up and the ImportError carries the
  path; in \<open>exiting\<close> the only split of \<open>script\<close> raises SystemExit, which leaves the
  function.
\<close>

theorem resolve_dotted_path_longest_first_witness:
  "length (split_dot ''pkg.sub.helper'') = 3
   \<and> abandoned (try_split demo (split_dot ''pkg.sub.helper'') 3)
   \<and> try_split demo (split_dot ''pkg.sub.helper'') 2 = Inr (3, ''pkg.sub'', [''helper''])
   \<and> try_split demo (split_dot ''pkg.sub.helper'') 1 = Inr (5, ''pkg'', [''sub'', ''helper''])
   \<and> resolve_dotted_path demo ''pkg.sub.helper'' = Inr (3, ''pkg.sub'', [''helper''])
   \<and> \<not> has_dot ''pkg'' \<and> resolve_dotted_path demo ''pkg'' = Inr (1, ''pkg'', [])
   \<and> abandoned (try_split base_provider (split_dot ''zzz'') 1)
   \<and> resolve_dotted_path base_provider ''zzz'' = Inl (ImportError ''Cannot resolve path: zzz'')
   \<and> try_split exiting (split_dot ''script'') 1 = Inl (BaseOnly ''0'')
   \<and> resolve_dotted_path exiting ''script'' = Inl (BaseOnly ''0'')"
proof -
  have len: "length (split_dot ''pkg.sub.helper'') = 3" by code_simp
  have a3: "abandoned (try_split demo (split_dot ''pkg.sub.helper'') 3)" by code_simp
  have s2: "try_split demo (split_dot ''pkg.sub.helper'') 2 = Inr (3, ''pkg.sub'', [''helper''])"
    by code_simp
  have s1: "try_split demo (split_dot ''pkg.sub.helper'') 1
            = Inr (5, ''pkg'', [''sub'', ''helper''])"
    by code_simp
  have longer: "\<forall>j. 2 < j \<and> j \<le> length (split_dot ''pkg.sub.helper'')
                  \<longrightarrow> abandoned (try_split demo (split_dot ''pkg.sub.helper'') j)"
  proof (intro allI impI)
    fix j :: nat
    assume "2 < j \<and> j \<le> length (split_dot ''pkg.sub.helper'')"
    with len have "j = 3" by simp
    with a3 show "abandoned (try_split demo (split_dot ''pkg.sub.helper'') j)" by simp
  qed
  have r: "resolve_dotted_path demo ''pkg.sub.helper'' = Inr (3, ''pkg.sub'', [''helper''])"
    using resolve_dotted_path_longest_first
            [where i = 2 and path = "''pkg.sub.helper''" and p = demo]
          len longer s2
    by simp
  have nd: "\<not> has_dot ''pkg''" by code_simp
  have ip: "import_module demo ''pkg'' = Inr 1" by code_simp
  have rp: "resolve_dotted_path demo ''pkg'' = Inr (1, ''pkg'', [])"
    using resolve_dotted_path_longest_first [where path = "''pkg''" and p = demo] nd ip
    by simp
  have lz: "length (split_dot ''zzz'') = 1" by code_simp
  have az: "abandoned (try_split base_provider (split_dot ''zzz'') 1)" by code_simp
  have allz: "\<forall>j. 1 \<le> j \<and> j \<le> length (split_dot ''zzz'')
                \<longrightarrow> abandoned (try_split base_provider (split_dot ''zzz'') j)"
  proof (intro allI impI)
    fix j :: nat
    assume "1 \<le> j \<and> j \<le> length (split_dot ''zzz'')"
    with lz have "j = 1" by simp
    with az show "abandoned (try_split base_provider (split_dot ''zzz'') j)" by simp
  qed
  have rz: "resolve_dotted_path base_provider ''zzz''
            = Inl (ImportError ''Cannot resolve path: zzz'')"
    using resolve_dotted_path_longest_first [where path = "''zzz''" and p = base_provider]
          allz
    by simp
  have ls: "length (split_dot ''script'') = 1" by code_simp
  have ts: "try_split exiting (split_dot ''script'') 1 = Inl (BaseOnly ''0'')" by code_simp
  have nc: "\<not> is_caught (BaseOnly ''0'')" by simp
  have nolonger: "\<forall>j. 1 < j \<and> j \<le> length (split_dot ''script'')
                    \<longrightarrow> abandoned (try_split exiting (split_dot ''script'') j)"
    using ls by auto
  have rs: "resolve_dotted_path exiting ''script'' = Inl (BaseOnly ''0'')"
    using resolve_dotted_path_longest_first
            [where path = "''script''" and p = exiting and i = 1] ls ts nc nolonger
    by simp
  from len a3 s2 s1 r nd rp az rz ts rs show ?thesis by blast
qed

section \<open>classify_object\<close>




section \<open>extract_signature\<close>







section \<open>inspect_class\<close>

lemma inspect_class_Inr:
  "inspect_class p cls qn ip = Inr ci \<Longrightarrow>
   \<exists>attrs ls doc sg.
     classify_class_attrs p cls = Inr attrs
     \<and> class_loop p cls qn ip attrs empty_class_lists = Inr ls
     \<and> getdoc p cls = Inr doc
     \<and> extract_signature p cls = Inr sg
     \<and> ci = \<lparr>MemberInfo.name = dunder_name p cls,
               MemberInfo.kind = CLASS,
               qualified_name = qn,
               docstring = doc,
               signature = sg,
               MemberInfo.source = None,
               is_private = False,
               is_dunder = False,
               defining_module = None,
               is_imported = False,
               value_repr = None,
               bases = map (dunder_name p)
                         (filter (\<lambda>b. b \<noteq> object_class p) (dunder_bases p cls)),
               mro = map (dunder_name p) (slice_1_m1 (dunder_mro p cls)),
               methods = sort_key MemberInfo.name (l_methods ls),
               class_methods = sort_key MemberInfo.name (l_class_methods ls),
               static_methods = sort_key MemberInfo.name (l_static_methods ls),
               properties = sort_key MemberInfo.name (l_properties ls),
               class_variables = sort_key MemberInfo.name (l_class_variables ls),
               is_abstract = isabstract p cls\<rparr>"
  unfolding inspect_class_def by (auto split: sum.splits)

lemma slice_1_m1_middle: "slice_1_m1 (x # mid @ [y]) = mid"
  by (simp add: slice_1_m1_def)

text \<open>
  Claim C7, as stated, fails: the lists hold names, and an ancestor may bear the name of the
  class itself. In \<open>same_name\<close> the class \<open>TestCase\<close> (object 1) derives from another
  class called \<open>TestCase\<close> (object 2), and both \<open>bases\<close> and \<open>mro\<close> contain the class's
  own name.
\<close>

theorem inspect_class_own_name_counterexample:
  "\<not> isl (inspect_class same_name 1 ''mytests.TestCase'' False)
   \<and> MemberInfo.name (projr (inspect_class same_name 1 ''mytests.TestCase'' False))
       = ''TestCase''
   \<and> bases (projr (inspect_class same_name 1 ''mytests.TestCase'' False)) = [''TestCase'']
   \<and> mro (projr (inspect_class same_name 1 ''mytests.TestCase'' False)) = [''TestCase'']
   \<and> dunder_bases same_name 1 = [2] \<and> dunder_mro same_name 1 = [1, 2, 0]
   \<and> object_class same_name = 0"
  by code_simp

text \<open>
  Claim C7, amended: for every class that inspect_class inspects, \<open>bases\<close> holds, in order,
  the names of the direct base types other than the root \<open>object\<close> itself, and \<open>mro\<close> holds
  the names of the ancestor-resolution order without its first and its last entry. When
  that order is the class, then its proper ancestors, then the root, \<open>mro\<close> names exactly
  the proper ancestors, so neither list has an entry for the class itself or for the root:
  every name in \<open>bases\<close> is the name of a direct base that is not the root, and every name
  in \<open>mro\<close> is the name of a proper ancestor.
\<close>

theorem inspect_class_bases_mro:
  "inspect_class p cls qn ip = Inr ci \<longrightarrow>
     bases ci = map (dunder_name p) (filter (\<lambda>b. b \<noteq> object_class p) (dunder_bases p cls))
     \<and> mro ci = map (dunder_name p) (butlast (tl (dunder_mro p cls)))
     \<and> (\<forall>n. n \<in> set (bases ci)
            \<longrightarrow> (\<exists>b. b \<in> set (dunder_bases p cls) \<and> b \<noteq> object_class p
                      \<and> dunder_name p b = n))
     \<and> (\<forall>mid. dunder_mro p cls = cls # mid @ [object_class p]
            \<longrightarrow> mro ci = map (dunder_name p) mid
                \<and> (distinct (dunder_mro p cls)
                     \<longrightarrow> cls \<notin> set mid \<and> object_class p \<notin> set mid))"
proof
  assume "inspect_class p cls qn ip = Inr ci"
  from inspect_class_Inr [OF this]
  have b: "bases ci = map (dunder_name p)
                        (filter (\<lambda>b. b \<noteq> object_class p) (dunder_bases p cls))"
    and m: "mro ci = map (dunder_name p) (slice_1_m1 (dunder_mro p cls))"
    by auto
  have names: "\<forall>n. n \<in> set (bases ci)
            \<longrightarrow> (\<exists>b. b \<in> set (dunder_bases p cls) \<and> b \<noteq> object_class p
                      \<and> dunder_name p b = n)"
    unfolding b by auto
  have mid: "\<forall>mid. dunder_mro p cls = cls # mid @ [object_class p]
            \<longrightarrow> mro ci = map (dunder_name p) mid
                \<and> (distinct (dunder_mro p cls)
                     \<longrightarrow> cls \<notin> set mid \<and> object_class p \<notin> set mid)"
    unfolding m by (auto simp: slice_1_m1_middle)
  from b m names mid
  show "bases ci = map (dunder_name p)
                     (filter (\<lambda>b. b \<noteq> object_class p) (dunder_bases p cls))
     \<and> mro ci = map (dunder_name p) (butlast (tl (dunder_mro p cls)))
     \<and> (\<forall>n. n \<in> set (bases ci)
            \<longrightarrow> (\<exists>b. b \<in> set (dunder_bases p cls) \<and> b \<noteq> object_class p
                      \<and> dunder_name p b = n))
     \<and> (\<forall>mid. dunder_mro p cls = cls # mid @ [object_class p]
            \<longrightarrow> mro ci = map (dunder_name p) mid
                \<and> (distinct (dunder_mro p cls)
                     \<longrightarrow> cls \<notin> set mid \<and> object_class p \<notin> set mid))"
    by (simp add: slice_1_m1_def)
qed

text \<open>
  In \<open>demo\<close>, the class \<open>Widget\<close> (object 7) has the single base \<open>Shape\<close> (12) and the
  ancestor order Widget, Shape, object: both lists are \<open>[Shape]\<close>.
\<close>

theorem inspect_class_bases_mro_witness:
  "\<not> isl (inspect_class demo 7 ''pkg.sub.Widget'' False)
   \<and> dunder_mro demo 7 = 7 # [12] @ [object_class demo]
   \<and> distinct (dunder_mro demo 7)
   \<and> bases (projr (inspect_class demo 7 ''pkg.sub.Widget'' False)) = [''Shape'']
   \<and> mro (projr (inspect_class demo 7 ''pkg.sub.Widget'' False)) = [''Shape'']"
proof -
  have ok: "\<not> isl (inspect_class demo 7 ''pkg.sub.Widget'' False)" by code_simp
  then obtain ci where ci: "inspect_class demo 7 ''pkg.sub.Widget'' False = Inr ci"
    by (cases "inspect_class demo 7 ''pkg.sub.Widget'' False") auto
  have mro7: "dunder_mro demo 7 = 7 # [12] @ [object_class demo]" by code_simp
  have d: "distinct (dunder_mro demo 7)" by code_simp
  have bs: "map (dunder_name demo)
              (filter (\<lambda>b. b \<noteq> object_class demo) (dunder_bases demo 7)) = [''Shape'']"
    by code_simp
  have nm: "map (dunder_name demo) [12] = [''Shape'']" by code_simp
  from inspect_class_bases_mro [of demo 7 "''pkg.sub.Widget''" False ci] ci mro7 bs nm
  have "bases ci = [''Shape''] \<and> mro ci = [''Shape'']"
    by auto
  with ok ci mro7 d show ?thesis by simp
qed

section \<open>inspect_module\<close>

lemma inspect_module_Inr:
  "inspect_module p m ip ii = Inr mo \<Longrightarrow>
   \<exists>subs members ls doc.
     discover_submodules p m = Inr subs
     \<and> getmembers p m = Inr members
     \<and> module_loop p (dunder_name p m) ip ii members empty_module_lists = Inr ls
     \<and> getdoc p m = Inr doc
     \<and> mo = \<lparr>MemberInfo.name = last (split_dot (dunder_name p m)),
               MemberInfo.kind = (if subs \<noteq> [] then PACKAGE else MODULE),
               qualified_name = dunder_name p m,
               docstring = doc,
               signature = None,
               MemberInfo.source = None,
               is_private = False,
               is_dunder = False,
               defining_module = None,
               is_imported = False,
               value_repr = None,
               is_package = (subs \<noteq> [] \<or> has_path p m),
               ModuleInfo.file_path = dunder_file p m,
               submodules = sort subs,
               classes = sort_key MemberInfo.name (l_classes ls),
               functions' = sort_key MemberInfo.name (l_functions ls),
               constants = sort_key MemberInfo.name (l_constants ls),
               variables = sort_key MemberInfo.name (l_variables ls)\<rparr>"
proof -
  assume a: "inspect_module p m ip ii = Inr mo"
  obtain subs where s: "discover_submodules p m = Inr subs"
    using a by (cases "discover_submodules p m") (simp_all add: inspect_module_def Let_def)
  obtain members where g: "getmembers p m = Inr members"
    using a s by (cases "getmembers p m") (simp_all add: inspect_module_def Let_def)
  obtain ls where
    l: "module_loop p (dunder_name p m) ip ii members empty_module_lists = Inr ls"
    using a s g
    by (cases "module_loop p (dunder_name p m) ip ii members empty_module_lists")
       (simp_all add: inspect_module_def Let_def)
  obtain doc where d: "getdoc p m = Inr doc"
    using a s g l by (cases "getdoc p m") (simp_all add: inspect_module_def Let_def)
  from a s g l d show ?thesis
    by (simp add: inspect_module_def Let_def)
qed

lemma inspect_class_buckets_sorted:
  "inspect_class p cls qn ip = Inr ci \<Longrightarrow> class_buckets_sorted ci"
  by (drule inspect_class_Inr) (auto simp: class_buckets_sorted_def)

lemma add_member_classes_sorted:
  "add_member p mn ip nm ob imported ls = Inr ls' \<Longrightarrow>
   list_all class_buckets_sorted (l_classes ls) \<Longrightarrow>
   list_all class_buckets_sorted (l_classes ls')"
  unfolding add_member_def Let_def
  by (auto split: if_splits sum.splits dest: inspect_class_buckets_sorted)

lemma module_step_classes_sorted:
  "module_step p mn ip ii nm ob ls = Inr ls' \<Longrightarrow>
   list_all class_buckets_sorted (l_classes ls) \<Longrightarrow>
   list_all class_buckets_sorted (l_classes ls')"
  unfolding module_step_def
  by (auto split: if_splits sum.splits dest: add_member_classes_sorted)

lemma module_loop_classes_sorted:
  "module_loop p mn ip ii members ls = Inr ls' \<Longrightarrow>
   list_all class_buckets_sorted (l_classes ls) \<Longrightarrow>
   list_all class_buckets_sorted (l_classes ls')"
proof (induction members arbitrary: ls)
  case Nil
  then show ?case by simp
next
  case (Cons b members)
  obtain nm ob where b: "b = (nm, ob)" by (cases b)
  from Cons.prems(1) obtain mid where
    step: "module_step p mn ip ii nm ob ls = Inr mid"
    and rest: "module_loop p mn ip ii members mid = Inr ls'"
    unfolding b by (auto split: sum.splits)
  from module_step_classes_sorted [OF step Cons.prems(2)]
  have "list_all class_buckets_sorted (l_classes mid)" .
  from Cons.IH [OF rest this] show ?case .
qed

lemma list_all_sort_key: "list_all P (sort_key f xs) = list_all P xs"
  by (simp add: list_all_iff)

text \<open>
  Claim C8: every list of the returned records is ascending by name. For every module that
  inspect_module inspects, the submodule names are ascending and the class, function,
  constant and variable lists are ascending by name, and every ClassInfo in the class list
  has its five buckets ascending by name; for every class that inspect_class inspects, the
  method, class-method, static-method, property and class-variable buckets are ascending by
  name.
\<close>

theorem lists_sorted_by_name:
  "(inspect_module p m ip ii = Inr mo \<longrightarrow>
      sorted (submodules mo)
      \<and> sorted (map MemberInfo.name (classes mo))
      \<and> sorted (map MemberInfo.name (functions' mo))
      \<and> sorted (map MemberInfo.name (constants mo))
      \<and> sorted (map MemberInfo.name (variables mo))
      \<and> list_all class_buckets_sorted (classes mo))
   \<and> (inspect_class p cls qn ip' = Inr ci \<longrightarrow>
      sorted (map MemberInfo.name (methods ci))
      \<and> sorted (map MemberInfo.name (class_methods ci))
      \<and> sorted (map MemberInfo.name (static_methods ci))
      \<and> sorted (map MemberInfo.name (properties ci))
      \<and> sorted (map MemberInfo.name (class_variables ci)))"
proof (intro conjI impI)
  assume mo: "inspect_module p m ip ii = Inr mo"
  from inspect_module_Inr [OF mo] obtain subs members ls where
    loop: "module_loop p (dunder_name p m) ip ii members empty_module_lists = Inr ls"
    and s: "submodules mo = sort subs"
    and c: "classes mo = sort_key MemberInfo.name (l_classes ls)"
    and f: "functions' mo = sort_key MemberInfo.name (l_functions ls)"
    and k: "constants mo = sort_key MemberInfo.name (l_constants ls)"
    and v: "variables mo = sort_key MemberInfo.name (l_variables ls)"
    by auto
  show "sorted (submodules mo)" unfolding s by simp
  show "sorted (map MemberInfo.name (classes mo))" unfolding c by simp
  show "sorted (map MemberInfo.name (functions' mo))" unfolding f by simp
  show "sorted (map MemberInfo.name (constants mo))" unfolding k by simp
  show "sorted (map MemberInfo.name (variables mo))" unfolding v by simp
  have "list_all class_buckets_sorted (l_classes ls)"
    using module_loop_classes_sorted [OF loop] by (simp add: empty_module_lists_def)
  then show "list_all class_buckets_sorted (classes mo)"
    unfolding c by (simp add: list_all_sort_key)
next
  assume "inspect_class p cls qn ip' = Inr ci"
  from inspect_class_buckets_sorted [OF this]
  show "sorted (map MemberInfo.name (methods ci))"
    and "sorted (map MemberInfo.name (class_methods ci))"
    and "sorted (map MemberInfo.name (static_methods ci))"
    and "sorted (map MemberInfo.name (properties ci))"
    and "sorted (map MemberInfo.name (class_variables ci))"
    by (simp_all add: class_buckets_sorted_def)
qed

text \<open>
  In \<open>demo\<close>, the module \<open>pkg.sub\<close> (object 2), inspected with private and imported
  members included, lists the functions \<open>helper\<close> and \<open>join\<close> and the variables
  \<open>HANDLER\<close>, \<open>_secret\<close> and \<open>state\<close> in this order; its class \<open>Widget\<close> (object 7)
  lists the methods \<open>area\<close> and \<open>draw\<close> and the class variables \<open>_cache\<close> and \<open>color\<close>,
  although the attribute table gives \<open>draw\<close> before \<open>area\<close> and \<open>color\<close> before
  \<open>_cache\<close>.
\<close>

theorem lists_sorted_by_name_witness:
  "\<not> isl (inspect_module demo 2 True True)
   \<and> \<not> isl (inspect_class demo 7 ''pkg.sub.Widget'' True)
   \<and> map MemberInfo.name (functions' (projr (inspect_module demo 2 True True)))
       = [''helper'', ''join'']
   \<and> map MemberInfo.name (variables (projr (inspect_module demo 2 True True)))
       = [''HANDLER'', ''_secret'', ''state'']
   \<and> sorted (map MemberInfo.name (variables (projr (inspect_module demo 2 True True))))
   \<and> map MemberInfo.name (methods (projr (inspect_class demo 7 ''pkg.sub.Widget'' True)))
       = [''area'', ''draw'']
   \<and> map MemberInfo.name
         (class_variables (projr (inspect_class demo 7 ''pkg.sub.Widget'' True)))
       = [''_cache'', ''color'']
   \<and> sorted (map MemberInfo.name
         (class_variables (projr (inspect_class demo 7 ''pkg.sub.Widget'' True))))"
proof -
  have okm: "\<not> isl (inspect_module demo 2 True True)" by code_simp
  then obtain mo where mo: "inspect_module demo 2 True True = Inr mo"
    by (cases "inspect_module demo 2 True True") auto
  have okc: "\<not> isl (inspect_class demo 7 ''pkg.sub.Widget'' True)" by code_simp
  then obtain ci where ci: "inspect_class demo 7 ''pkg.sub.Widget'' True = Inr ci"
    by (cases "inspect_class demo 7 ''pkg.sub.Widget'' True") auto
  have vals:
    "map MemberInfo.name (functions' (projr (inspect_module demo 2 True True)))
       = [''helper'', ''join'']
     \<and> map MemberInfo.name (variables (projr (inspect_module demo 2 True True)))
       = [''HANDLER'', ''_secret'', ''state'']
     \<and> map MemberInfo.name (methods (projr (inspect_class demo 7 ''pkg.sub.Widget'' True)))
       = [''area'', ''draw'']
     \<and> map MemberInfo.name
         (class_variables (projr (inspect_class demo 7 ''pkg.sub.Widget'' True)))
       = [''_cache'', ''color'']"
    by code_simp
  from lists_sorted_by_name [of demo 2 True True mo 7 "''pkg.sub.Widget''" True ci] mo ci
  have "sorted (map MemberInfo.name (variables mo))
        \<and> sorted (map MemberInfo.name (class_variables ci))"
    by simp
  with okm okc vals mo ci show ?thesis by simp
qed

section \<open>The envelope of inspect_path\<close>

lemma inspect_body_Inr:
  "inspect_body p path ip ii = Inr res \<Longrightarrow>
   \<exists>ob mp attrs i.
     resolve_dotted_path p path = Inr (ob, mp, attrs)
     \<and> dispatch p path ob
           (classify_object p ob (if has_dot path then last (split_dot path) else path))
           ip ii = Inr i
     \<and> res = \<lparr>target = path, resolved_path = path,
                InspectionResult.kind =
                  classify_object p ob (if has_dot path then last (split_dot path) else path),
                info = i, error = None\<rparr>"
proof -
  assume a: "inspect_body p path ip ii = Inr res"
  obtain ob mp attrs where r: "resolve_dotted_path p path = Inr (ob, mp, attrs)"
    using a by (cases "resolve_dotted_path p path") (auto simp: inspect_body_def)
  let ?k = "classify_object p ob (if has_dot path then last (split_dot path) else path)"
  obtain i where d: "dispatch p path ob ?k ip ii = Inr i"
    using a r by (cases "dispatch p path ob ?k ip ii") (auto simp: inspect_body_def Let_def)
  from a r d show ?thesis
    by (auto simp: inspect_body_def Let_def)
qed

lemma inspect_path_Inr:
  "inspect_path p path ip ii = Inr res \<Longrightarrow>
   (inspect_body p path ip ii = Inr res \<and> error res = None)
   \<or> (\<exists>e. inspect_body p path ip ii = Inl e \<and> is_Exception e \<and> res = degraded path e)"
proof (cases "inspect_body p path ip ii")
  case (Inl e)
  assume "inspect_path p path ip ii = Inr res"
  with Inl show ?thesis
    by (auto simp: inspect_path_def split: if_splits)
next
  case (Inr r)
  assume "inspect_path p path ip ii = Inr res"
  with Inr have eq: "r = res" by (simp add: inspect_path_def)
  from inspect_body_Inr [OF Inr] have "error r = None" by auto
  with Inr eq show ?thesis by simp
qed

lemma error_degraded: "error (degraded path e) = Some (str_exn e)"
  by (simp add: degraded_def)

lemma inspect_path_no_error:
  "inspect_path p path ip ii = Inr res \<Longrightarrow> error res = None \<Longrightarrow>
   inspect_body p path ip ii = Inr res"
  by (drule inspect_path_Inr) (auto simp: error_degraded)

lemma dispatch_module:
  "ismodule p ob \<Longrightarrow> dispatch p path ob (classify_object p ob nm) ip ii = Inr i \<Longrightarrow>
   \<exists>mo. i = Module mo \<and> inspect_module p ob ip ii = Inr mo"
  by (auto simp: dispatch_def classify_object_def split: if_splits sum.splits)

lemma inspect_module_kind:
  "inspect_module p m ip ii = Inr mo \<Longrightarrow>
   \<exists>subs. discover_submodules p m = Inr subs
     \<and> submodules mo = sort subs
     \<and> (MemberInfo.kind mo = PACKAGE \<longleftrightarrow> subs \<noteq> [])
     \<and> (MemberInfo.kind mo = MODULE \<longleftrightarrow> subs = [])
     \<and> (is_package mo \<longleftrightarrow> subs \<noteq> [] \<or> has_path p m)"
  by (drule inspect_module_Inr) auto

lemma discover_submodules_Inr:
  "discover_submodules p m = Inr subs \<Longrightarrow>
   subs = (if has_path p m then fst (iter_modules p m) else [])"
  by (auto simp: discover_submodules_def split: if_splits prod.splits option.splits)

text \<open>
  Claim C9: the kind inside the ModuleInfo that inspect_module builds is Package exactly when
  submodule discovery found at least one submodule, and Module otherwise, whether or not the
  module has a \<open>__path__\<close>; \<open>is_package\<close> holds when a submodule was found or the module
  has a \<open>__path__\<close>. The kind of the envelope that inspect_path returns for a module is
  decided by the \<open>__path__\<close> test alone. So for a package with a \<open>__path__\<close> in which no
  submodule is found, the envelope says Package, the ModuleInfo inside says Module, and
  \<open>is_package\<close> is true.
\<close>

theorem package_kind_two_tests:
  "(inspect_module p m ip ii = Inr mo \<longrightarrow>
      (\<exists>subs. discover_submodules p m = Inr subs
         \<and> subs = (if has_path p m then fst (iter_modules p m) else [])
         \<and> submodules mo = sort subs
         \<and> (MemberInfo.kind mo = PACKAGE \<longleftrightarrow> subs \<noteq> [])
         \<and> (MemberInfo.kind mo = MODULE \<longleftrightarrow> subs = [])
         \<and> (is_package mo \<longleftrightarrow> subs \<noteq> [] \<or> has_path p m)))
   \<and> (inspect_path p path ip' ii' = Inr res \<and> error res = None
        \<and> resolve_dotted_path p path = Inr (ob, mp, attrs) \<and> ismodule p ob \<longrightarrow>
          InspectionResult.kind res = (if has_path p ob then PACKAGE else MODULE)
          \<and> (\<exists>mi. info res = Module mi \<and> inspect_module p ob ip' ii' = Inr mi
                 \<and> (has_path p ob \<and> fst (iter_modules p ob) = [] \<longrightarrow>
                       InspectionResult.kind res = PACKAGE
                       \<and> MemberInfo.kind mi = MODULE \<and> is_package mi)))"
proof (intro conjI impI)
  assume mo: "inspect_module p m ip ii = Inr mo"
  from inspect_module_kind [OF mo] obtain subs where
    s: "discover_submodules p m = Inr subs"
    and rest: "submodules mo = sort subs"
      "MemberInfo.kind mo = PACKAGE \<longleftrightarrow> subs \<noteq> []"
      "MemberInfo.kind mo = MODULE \<longleftrightarrow> subs = []"
      "is_package mo \<longleftrightarrow> subs \<noteq> [] \<or> has_path p m"
    by blast
  from discover_submodules_Inr [OF s] s rest
  show "\<exists>subs. discover_submodules p m = Inr subs
         \<and> subs = (if has_path p m then fst (iter_modules p m) else [])
         \<and> submodules mo = sort subs
         \<and> (MemberInfo.kind mo = PACKAGE \<longleftrightarrow> subs \<noteq> [])
         \<and> (MemberInfo.kind mo = MODULE \<longleftrightarrow> subs = [])
         \<and> (is_package mo \<longleftrightarrow> subs \<noteq> [] \<or> has_path p m)"
    by blast
next
  assume h: "inspect_path p path ip' ii' = Inr res \<and> error res = None
        \<and> resolve_dotted_path p path = Inr (ob, mp, attrs) \<and> ismodule p ob"
  then have body: "inspect_body p path ip' ii' = Inr res"
    by (intro inspect_path_no_error) auto
  let ?nm = "if has_dot path then last (split_dot path) else path"
  from inspect_body_Inr [OF body] h obtain i where
    d: "dispatch p path ob (classify_object p ob ?nm) ip' ii' = Inr i"
    and k: "InspectionResult.kind res = classify_object p ob ?nm"
    and i: "info res = i"
    by auto
  from h have km: "classify_object p ob ?nm = (if has_path p ob then PACKAGE else MODULE)"
    by (simp add: classify_object_def)
  show "InspectionResult.kind res = (if has_path p ob then PACKAGE else MODULE)"
    using k km by simp
  from h dispatch_module [OF _ d] obtain mi where
    mi: "i = Module mi" and im: "inspect_module p ob ip' ii' = Inr mi"
    by auto
  from inspect_module_kind [OF im] obtain subs where
    s: "discover_submodules p ob = Inr subs"
    and kinds: "MemberInfo.kind mi = MODULE \<longleftrightarrow> subs = []"
      "is_package mi \<longleftrightarrow> subs \<noteq> [] \<or> has_path p ob"
    by blast
  have "has_path p ob \<and> fst (iter_modules p ob) = [] \<longrightarrow>
          InspectionResult.kind res = PACKAGE \<and> MemberInfo.kind mi = MODULE \<and> is_package mi"
    using discover_submodules_Inr [OF s] kinds k km by auto
  with i mi im
  show "\<exists>mi. info res = Module mi \<and> inspect_module p ob ip' ii' = Inr mi
          \<and> (has_path p ob \<and> fst (iter_modules p ob) = [] \<longrightarrow>
                InspectionResult.kind res = PACKAGE
                \<and> MemberInfo.kind mi = MODULE \<and> is_package mi)"
    by blast
qed

text \<open>
  In \<open>bare_package\<close>, the package \<open>bare\<close> (object 1) has a \<open>__path__\<close> and no submodule:
  the envelope has kind Package, the ModuleInfo inside has kind Module and is a package. In
  \<open>demo\<close>, the package \<open>pkg\<close> has the submodule \<open>sub\<close> and both kinds are Package.
\<close>

theorem package_kind_two_tests_witness:
  "resolve_dotted_path bare_package ''bare'' = Inr (1, ''bare'', [])
   \<and> ismodule bare_package 1 \<and> has_path bare_package 1
   \<and> fst (iter_modules bare_package 1) = []
   \<and> \<not> isl (inspect_path bare_package ''bare'' False False)
   \<and> error (projr (inspect_path bare_package ''bare'' False False)) = None
   \<and> InspectionResult.kind (projr (inspect_path bare_package ''bare'' False False)) = PACKAGE
   \<and> info_kind (info (projr (inspect_path bare_package ''bare'' False False))) = MODULE
   \<and> \<not> isl (inspect_module bare_package 1 False False)
   \<and> is_package (projr (inspect_module bare_package 1 False False))
   \<and> \<not> isl (inspect_module demo 1 False False)
   \<and> MemberInfo.kind (projr (inspect_module demo 1 False False)) = PACKAGE
   \<and> submodules (projr (inspect_module demo 1 False False)) = [''sub'']"
proof -
  have r: "resolve_dotted_path bare_package ''bare'' = Inr (1, ''bare'', [])" by code_simp
  have m: "ismodule bare_package 1 \<and> has_path bare_package 1
           \<and> fst (iter_modules bare_package 1) = []"
    by code_simp
  have ok: "\<not> isl (inspect_path bare_package ''bare'' False False)" by code_simp
  then obtain res where res: "inspect_path bare_package ''bare'' False False = Inr res"
    by (cases "inspect_path bare_package ''bare'' False False") auto
  have "error (projr (inspect_path bare_package ''bare'' False False)) = None" by code_simp
  with res have e: "error res = None" by simp
  have okd: "\<not> isl (inspect_module demo 1 False False)" by code_simp
  then obtain md where md: "inspect_module demo 1 False False = Inr md"
    by (cases "inspect_module demo 1 False False") auto
  have subs: "submodules (projr (inspect_module demo 1 False False)) = [''sub'']"
    by code_simp
  note bare = package_kind_two_tests
               [where p = bare_package and path = "''bare''" and ip' = False and ii' = False
                  and res = res and ob = 1 and mp = "''bare''" and attrs = "[]",
                THEN conjunct2]
  note pkg = package_kind_two_tests
               [where p = demo and m = 1 and ip = False and ii = False and mo = md,
                THEN conjunct1]
  from bare res e r m have
    "InspectionResult.kind res = PACKAGE
     \<and> (\<exists>mi. info res = Module mi \<and> inspect_module bare_package 1 False False = Inr mi
            \<and> MemberInfo.kind mi = MODULE \<and> is_package mi)"
    by auto
  then obtain mi where
    mi: "info res = Module mi" "inspect_module bare_package 1 False False = Inr mi"
      "InspectionResult.kind res = PACKAGE" "MemberInfo.kind mi = MODULE" "is_package mi"
    by blast
  from pkg md obtain ss where
    ss: "submodules md = sort ss" "MemberInfo.kind md = PACKAGE \<longleftrightarrow> ss \<noteq> []"
    by blast
  from subs md ss(1) have "ss \<noteq> []" by auto
  with ss(2) have "MemberInfo.kind md = PACKAGE" by simp
  with r m ok res e okd md subs mi show ?thesis by simp
qed

section \<open>The loop of inspect_module\<close>

lemma create_member_info_Inr:
  "create_member_info p ob nm k pp imported = Inr mi \<Longrightarrow>
   MemberInfo.name mi = nm \<and> MemberInfo.kind mi = k \<and> qualified_name mi = pp @ ''.'' @ nm
   \<and> is_imported mi = imported \<and> MemberInfo.source mi = None \<and> value_repr mi = None"
  by (auto simp: create_member_info_def split: sum.splits)

lemma add_member_constant:
  "classify_object p ob nm = CONSTANT \<Longrightarrow> add_member p mn ip nm ob imported ls = Inr ls' \<Longrightarrow>
   \<exists>mi. l_constants ls' = l_constants ls @ [mi] \<and> MemberInfo.name mi = nm
        \<and> is_imported mi = imported \<and> MemberInfo.kind mi = CONSTANT"
  by (auto simp: add_member_def split: sum.splits dest!: create_member_info_Inr)

lemma add_member_variable:
  "classify_object p ob nm = VARIABLE \<Longrightarrow> add_member p mn ip nm ob imported ls = Inr ls' \<Longrightarrow>
   \<exists>mi. l_variables ls' = l_variables ls @ [mi] \<and> MemberInfo.name mi = nm
        \<and> is_imported mi = imported \<and> MemberInfo.kind mi = VARIABLE"
  by (auto simp: add_member_def split: sum.splits dest!: create_member_info_Inr)

lemma add_member_function:
  "classify_object p ob nm = FUNCTION \<or> classify_object p ob nm = BUILTIN \<Longrightarrow>
   add_member p mn ip nm ob imported ls = Inr ls' \<Longrightarrow>
   \<exists>mi. l_functions ls' = l_functions ls @ [mi] \<and> MemberInfo.name mi = nm
        \<and> is_imported mi = imported \<and> MemberInfo.kind mi = classify_object p ob nm"
  by (auto simp: add_member_def split: sum.splits dest!: create_member_info_Inr)

lemma add_member_mono:
  "add_member p mn ip nm ob imported ls = Inr ls' \<Longrightarrow>
   set (l_functions ls) \<subseteq> set (l_functions ls')
   \<and> set (l_constants ls) \<subseteq> set (l_constants ls')
   \<and> set (l_variables ls) \<subseteq> set (l_variables ls')"
  by (auto simp: add_member_def Let_def split: sum.splits if_splits)

lemma module_step_mono:
  "module_step p mn ip ii nm ob ls = Inr ls' \<Longrightarrow>
   set (l_functions ls) \<subseteq> set (l_functions ls')
   \<and> set (l_constants ls) \<subseteq> set (l_constants ls')
   \<and> set (l_variables ls) \<subseteq> set (l_variables ls')"
  unfolding module_step_def
  by (auto split: sum.splits if_splits dest!: add_member_mono)

lemma module_loop_mono:
  "module_loop p mn ip ii members ls = Inr ls' \<Longrightarrow>
   set (l_functions ls) \<subseteq> set (l_functions ls')
   \<and> set (l_constants ls) \<subseteq> set (l_constants ls')
   \<and> set (l_variables ls) \<subseteq> set (l_variables ls')"
proof (induction members arbitrary: ls)
  case Nil
  then show ?case by simp
next
  case (Cons b members)
  obtain nm ob where b: "b = (nm, ob)" by (cases b)
  from Cons.prems obtain mid where
    step: "module_step p mn ip ii nm ob ls = Inr mid"
    and rest: "module_loop p mn ip ii members mid = Inr ls'"
    unfolding b by (auto split: sum.splits)
  from module_step_mono [OF step] Cons.IH [OF rest] show ?case by blast
qed

text \<open>The imported filter lets a binding without a declaring module through.\<close>

lemma module_step_no_module:
  "dunder_module p ob = Inr None \<Longrightarrow>
   module_step p mn ip ii nm ob ls =
     (if \<not> ip \<and> startswith nm ''_'' then Inr ls
      else if ismodule p ob then Inr ls
      else add_member p mn ip nm ob False ls)"
  by (simp add: module_step_def is_imported_from_def)

lemma module_loop_retains:
  "module_loop p mn ip ii members ls = Inr ls' \<Longrightarrow> (nm, ob) \<in> set members \<Longrightarrow>
   dunder_module p ob = Inr None \<Longrightarrow> \<not> ismodule p ob \<Longrightarrow> ip \<or> \<not> startswith nm ''_'' \<Longrightarrow>
   classify_object p ob nm \<in> {FUNCTION, BUILTIN, CONSTANT, VARIABLE} \<Longrightarrow>
   \<exists>mi. mi \<in> set (appended ls' (classify_object p ob nm)) \<and> MemberInfo.name mi = nm
        \<and> \<not> is_imported mi \<and> MemberInfo.kind mi = classify_object p ob nm"
proof (induction members arbitrary: ls)
  case Nil
  then show ?case by simp
next
  case (Cons b members)
  obtain n o' where b: "b = (n, o')" by (cases b)
  from Cons.prems(1) obtain mid where
    step: "module_step p mn ip ii n o' ls = Inr mid"
    and rest: "module_loop p mn ip ii members mid = Inr ls'"
    unfolding b by (auto split: sum.splits)
  show ?case
  proof (cases "(nm, ob) \<in> set members")
    case True
    from Cons.IH [OF rest True Cons.prems(3-6)] show ?thesis .
  next
    case False
    with Cons.prems(2) b have eq: "n = nm" "o' = ob" by auto
    from step Cons.prems(3-5) have add: "add_member p mn ip nm ob False ls = Inr mid"
      unfolding eq by (auto simp: module_step_no_module)
    let ?k = "classify_object p ob nm"
    have "\<exists>mi. mi \<in> set (appended mid ?k) \<and> MemberInfo.name mi = nm
            \<and> \<not> is_imported mi \<and> MemberInfo.kind mi = ?k"
    proof -
      consider "?k = FUNCTION \<or> ?k = BUILTIN" | "?k = CONSTANT" | "?k = VARIABLE"
        using Cons.prems(6) by auto
      then show ?thesis
      proof cases
        case 1
        from add_member_function [OF 1 add] 1 show ?thesis
          by (auto simp: appended_def)
      next
        case 2
        from add_member_constant [OF 2 add] 2 show ?thesis
          by (auto simp: appended_def)
      next
        case 3
        from add_member_variable [OF 3 add] 3 show ?thesis
          by (auto simp: appended_def)
      qed
    qed
    moreover have "set (appended mid ?k) \<subseteq> set (appended ls' ?k)"
      using module_loop_mono [OF rest] by (auto simp: appended_def)
    ultimately show ?thesis by blast
  qed
qed

text \<open>
  Claim C10: in the enumeration of a namespace, an entity without a declaring namespace
  (\<open>getattr(obj, "__module__", None)\<close> gives None) counts as not imported: the imported
  filter never skips it, so the step of the loop is the same with and without
  \<open>include_imported\<close>, and when such a binding passes the private filter and is no module,
  the record that the scan returns for it, in the function, constant or variable list that
  its kind selects, has \<open>is_imported\<close> false, also when \<open>include_imported\<close> is false.
\<close>

theorem no_declaring_module_not_imported:
  "dunder_module p ob = Inr None \<longrightarrow>
     \<not> is_imported_from None mn
     \<and> module_step p mn ip False nm ob ls = module_step p mn ip True nm ob ls
     \<and> module_step p mn ip ii nm ob ls =
         (if \<not> ip \<and> startswith nm ''_'' then Inr ls
          else if ismodule p ob then Inr ls
          else add_member p mn ip nm ob False ls)
     \<and> (inspect_module p m ip ii = Inr mo \<and> getmembers p m = Inr members
          \<and> (nm, ob) \<in> set members \<and> \<not> ismodule p ob \<and> (ip \<or> \<not> startswith nm ''_'')
        \<longrightarrow> (classify_object p ob nm = CONSTANT
               \<longrightarrow> (\<exists>mi. mi \<in> set (constants mo) \<and> MemberInfo.name mi = nm
                          \<and> \<not> is_imported mi))
            \<and> (classify_object p ob nm = VARIABLE
               \<longrightarrow> (\<exists>mi. mi \<in> set (variables mo) \<and> MemberInfo.name mi = nm
                          \<and> \<not> is_imported mi))
            \<and> (classify_object p ob nm = FUNCTION \<or> classify_object p ob nm = BUILTIN
               \<longrightarrow> (\<exists>mi. mi \<in> set (functions' mo) \<and> MemberInfo.name mi = nm
                          \<and> \<not> is_imported mi)))"
proof (intro impI conjI)
  show "\<not> is_imported_from None mn" by (simp add: is_imported_from_def)
next
  assume nm: "dunder_module p ob = Inr None"
  show "module_step p mn ip False nm ob ls = module_step p mn ip True nm ob ls"
    using nm by (simp add: module_step_no_module)
  show "module_step p mn ip ii nm ob ls =
         (if \<not> ip \<and> startswith nm ''_'' then Inr ls
          else if ismodule p ob then Inr ls
          else add_member p mn ip nm ob False ls)"
    using nm by (rule module_step_no_module)
next
  assume nm: "dunder_module p ob = Inr None"
    and h: "inspect_module p m ip ii = Inr mo \<and> getmembers p m = Inr members
          \<and> (nm, ob) \<in> set members \<and> \<not> ismodule p ob \<and> (ip \<or> \<not> startswith nm ''_'')"
  from h inspect_module_Inr [of p m ip ii mo] obtain ls where
    loop: "module_loop p (dunder_name p m) ip ii members empty_module_lists = Inr ls"
    and f: "functions' mo = sort_key MemberInfo.name (l_functions ls)"
    and c: "constants mo = sort_key MemberInfo.name (l_constants ls)"
    and v: "variables mo = sort_key MemberInfo.name (l_variables ls)"
    by auto
  from h have mem: "(nm, ob) \<in> set members" and nomod: "\<not> ismodule p ob"
    and pub: "ip \<or> \<not> startswith nm ''_''"
    by auto
  note retains = module_loop_retains [OF loop mem nm nomod pub]
  {
    assume k: "classify_object p ob nm = CONSTANT"
    from retains k show "\<exists>mi. mi \<in> set (constants mo) \<and> MemberInfo.name mi = nm
                          \<and> \<not> is_imported mi"
      unfolding c by (auto simp: appended_def)
  next
    assume k: "classify_object p ob nm = VARIABLE"
    from retains k show "\<exists>mi. mi \<in> set (variables mo) \<and> MemberInfo.name mi = nm
                          \<and> \<not> is_imported mi"
      unfolding v by (auto simp: appended_def)
  next
    assume k: "classify_object p ob nm = FUNCTION \<or> classify_object p ob nm = BUILTIN"
    from retains k show "\<exists>mi. mi \<in> set (functions' mo) \<and> MemberInfo.name mi = nm
                          \<and> \<not> is_imported mi"
      unfolding f by (auto simp: appended_def)
  }
qed

text \<open>
  In \<open>demo\<close>, the integer bound to \<open>LIMIT\<close> (object 6) has no \<open>__module__\<close>. With
  \<open>include_imported\<close> false, the scan of \<open>pkg.sub\<close> drops the imported function \<open>join\<close>
  and keeps \<open>LIMIT\<close>, not imported.
\<close>

theorem no_declaring_module_not_imported_witness:
  "dunder_module demo 6 = Inr None
   \<and> getmembers demo 2 = Inr [(''HANDLER'', 17), (''LIMIT'', 6), (''Widget'', 7), (''_secret'', 8),
                              (''helper'', 3), (''join'', 9), (''state'', 10)]
   \<and> \<not> ismodule demo 6 \<and> \<not> startswith ''LIMIT'' ''_''
   \<and> classify_object demo 6 ''LIMIT'' = CONSTANT
   \<and> \<not> isl (inspect_module demo 2 False False)
   \<and> map MemberInfo.name (constants (projr (inspect_module demo 2 False False))) = [''LIMIT'']
   \<and> map is_imported (constants (projr (inspect_module demo 2 False False))) = [False]
   \<and> map MemberInfo.name (functions' (projr (inspect_module demo 2 False False))) = [''helper'']"
proof -
  have dm: "dunder_module demo 6 = Inr None" by code_simp
  have gm: "getmembers demo 2 = Inr [(''HANDLER'', 17), (''LIMIT'', 6), (''Widget'', 7),
                                    (''_secret'', 8), (''helper'', 3), (''join'', 9),
                                    (''state'', 10)]"
    by code_simp
  have side: "\<not> ismodule demo 6 \<and> \<not> startswith ''LIMIT'' ''_''
              \<and> classify_object demo 6 ''LIMIT'' = CONSTANT"
    by code_simp
  have ok: "\<not> isl (inspect_module demo 2 False False)" by code_simp
  then obtain mo where mo: "inspect_module demo 2 False False = Inr mo"
    by (cases "inspect_module demo 2 False False") auto
  have vals:
    "map MemberInfo.name (constants (projr (inspect_module demo 2 False False))) = [''LIMIT'']
     \<and> map MemberInfo.name (functions' (projr (inspect_module demo 2 False False)))
         = [''helper'']"
    by code_simp
  have mem: "(''LIMIT'', 6) \<in> set [(''HANDLER'', 17), (''LIMIT'', 6), (''Widget'', 7),
                                      (''_secret'', 8), (''helper'', 3), (''join'', 9),
                                      (''state'', 10 :: nat)]"
    by simp
  note inst = no_declaring_module_not_imported
            [where p = demo and ob = 6 and nm = "''LIMIT''" and m = 2 and ip = False
               and ii = False and mo = mo
               and members = "[(''HANDLER'', 17), (''LIMIT'', 6), (''Widget'', 7),
                               (''_secret'', 8), (''helper'', 3), (''join'', 9),
                               (''state'', 10)]"]
  from inst dm mo gm mem side
  have "\<exists>mi. mi \<in> set (constants mo) \<and> MemberInfo.name mi = ''LIMIT'' \<and> \<not> is_imported mi"
    by blast
  then obtain mi where mi: "mi \<in> set (constants mo)" "\<not> is_imported mi" by blast
  from vals mo have "map MemberInfo.name (constants mo) = [''LIMIT'']" by simp
  then obtain c where "constants mo = [c]" by (cases "constants mo") auto
  with mi have "map is_imported (constants mo) = [False]" by simp
  with mo have imp: "map is_imported (constants (projr (inspect_module demo 2 False False)))
                     = [False]"
    by simp
  from dm gm side ok vals imp show ?thesis by blast
qed

section \<open>Failures that are handled where they arise\<close>



















section \<open>The names in the envelope\<close>

lemma dispatch_Inr:
  "dispatch p path ob k ip ii = Inr i \<Longrightarrow>
   (k = MODULE \<or> k = PACKAGE \<longrightarrow> (\<exists>mo. i = Module mo \<and> inspect_module p ob ip ii = Inr mo))
   \<and> (k = CLASS \<longrightarrow> (\<exists>ci. i = Class ci \<and> inspect_class p ob path ip = Inr ci))
   \<and> (k \<noteq> MODULE \<and> k \<noteq> PACKAGE \<and> k \<noteq> CLASS
        \<longrightarrow> (\<exists>mi. i = Member mi \<and> leaf_info p path ob k = Inr mi))"
  by (auto simp: dispatch_def split: if_splits sum.splits)

lemma leaf_info_Inr:
  "leaf_info p path ob k = Inr mi \<Longrightarrow>
   MemberInfo.name mi = last (split_dot path) \<and> MemberInfo.kind mi = k
   \<and> qualified_name mi
       = (if has_dot path then join_dot (butlast (split_dot path)) else [])
         @ ''.'' @ last (split_dot path)"
  by (auto simp: leaf_info_def Let_def split: sum.splits dest!: create_member_info_Inr)

lemma leaf_info_dotted:
  "leaf_info p path ob k = Inr mi \<Longrightarrow> has_dot path \<Longrightarrow> qualified_name mi = path"
  using leaf_info_Inr [of p path ob k mi] parent_dot_last [of path] by simp

lemma inspect_module_qualified_name:
  "inspect_module p m ip ii = Inr mo \<Longrightarrow> qualified_name mo = dunder_name p m"
  by (drule inspect_module_Inr) auto

lemma inspect_class_qualified_name:
  "inspect_class p cls qn ip = Inr ci \<Longrightarrow> qualified_name ci = qn"
  by (drule inspect_class_Inr) auto

lemma degraded_fields:
  "target (degraded path e) = path \<and> resolved_path (degraded path e) = path
   \<and> InspectionResult.kind (degraded path e) = VARIABLE
   \<and> error (degraded path e) = Some (str_exn e)
   \<and> info_qualified_name (info (degraded path e)) = path
   \<and> (\<exists>mi. info (degraded path e) = Member mi \<and> MemberInfo.name mi = path
          \<and> qualified_name mi = path \<and> MemberInfo.kind mi = VARIABLE
          \<and> docstring mi = None \<and> signature mi = None \<and> MemberInfo.source mi = None)"
  by (simp add: degraded_def)

text \<open>
  Claim C2, as stated, fails for modules: inspect_module takes the qualified name from the
  module's \<open>__name__\<close>, not from the path. In \<open>aliased\<close> the path \<open>os.path\<close> resolves to a
  module whose \<open>__name__\<close> is \<open>posixpath\<close>; the envelope has \<open>resolved_path\<close> \<open>os.path\<close>
  and an info record whose qualified name is \<open>posixpath\<close>.
\<close>

theorem inspect_path_module_name_counterexample:
  "resolve_dotted_path aliased ''os.path'' = Inr (1, ''os.path'', [])
   \<and> \<not> isl (inspect_path aliased ''os.path'' False False)
   \<and> error (projr (inspect_path aliased ''os.path'' False False)) = None
   \<and> resolved_path (projr (inspect_path aliased ''os.path'' False False)) = ''os.path''
   \<and> info_qualified_name (info (projr (inspect_path aliased ''os.path'' False False)))
       = ''posixpath''
   \<and> info_qualified_name (info (projr (inspect_path aliased ''os.path'' False False)))
       \<noteq> ''os.path''"
  by code_simp

text \<open>
  Claim C2, amended: every envelope that inspect_path returns has \<open>target\<close> and
  \<open>resolved_path\<close> equal to the input path. When the path resolves and the inspection
  reports no error, the qualified name of the info record equals the input path if the
  entity is a class, or any other entity that is no module and was reached through a dotted
  path; if the entity is a module or a package, the qualified name is the module's own
  \<open>__name__\<close>. In the error envelope the qualified name is the input path.
\<close>

theorem inspect_path_resolved_and_qualified_name:
  "inspect_path p path ip ii = Inr res \<longrightarrow>
     target res = path \<and> resolved_path res = path
     \<and> (error res \<noteq> None \<longrightarrow> info_qualified_name (info res) = path)
     \<and> (error res = None \<longrightarrow>
          (\<exists>ob mp attrs. resolve_dotted_path p path = Inr (ob, mp, attrs)
             \<and> (InspectionResult.kind res = CLASS
                  \<longrightarrow> info_qualified_name (info res) = path)
             \<and> (InspectionResult.kind res = MODULE \<or> InspectionResult.kind res = PACKAGE
                  \<longrightarrow> info_qualified_name (info res) = dunder_name p ob)
             \<and> (InspectionResult.kind res \<noteq> CLASS \<and> InspectionResult.kind res \<noteq> MODULE
                  \<and> InspectionResult.kind res \<noteq> PACKAGE \<and> has_dot path
                  \<longrightarrow> info_qualified_name (info res) = path)))"
proof
  assume a: "inspect_path p path ip ii = Inr res"
  from inspect_path_Inr [OF a]
  show "target res = path \<and> resolved_path res = path
     \<and> (error res \<noteq> None \<longrightarrow> info_qualified_name (info res) = path)
     \<and> (error res = None \<longrightarrow>
          (\<exists>ob mp attrs. resolve_dotted_path p path = Inr (ob, mp, attrs)
             \<and> (InspectionResult.kind res = CLASS
                  \<longrightarrow> info_qualified_name (info res) = path)
             \<and> (InspectionResult.kind res = MODULE \<or> InspectionResult.kind res = PACKAGE
                  \<longrightarrow> info_qualified_name (info res) = dunder_name p ob)
             \<and> (InspectionResult.kind res \<noteq> CLASS \<and> InspectionResult.kind res \<noteq> MODULE
                  \<and> InspectionResult.kind res \<noteq> PACKAGE \<and> has_dot path
                  \<longrightarrow> info_qualified_name (info res) = path)))"
  proof
    assume b: "inspect_body p path ip ii = Inr res \<and> error res = None"
    from b inspect_body_Inr [of p path ip ii res] obtain ob mp attrs i where
      r: "resolve_dotted_path p path = Inr (ob, mp, attrs)"
      and d: "dispatch p path ob
                (classify_object p ob (if has_dot path then last (split_dot path) else path))
                ip ii = Inr i"
      and t: "target res = path" and rp: "resolved_path res = path"
      and k: "InspectionResult.kind res
                = classify_object p ob (if has_dot path then last (split_dot path) else path)"
      and i: "info res = i"
      by auto
    note cases = dispatch_Inr [OF d, folded k]
    have c: "InspectionResult.kind res = CLASS \<longrightarrow> info_qualified_name (info res) = path"
      using cases i by (auto dest: inspect_class_qualified_name)
    have m: "InspectionResult.kind res = MODULE \<or> InspectionResult.kind res = PACKAGE
               \<longrightarrow> info_qualified_name (info res) = dunder_name p ob"
      using cases i by (auto dest: inspect_module_qualified_name)
    have l: "InspectionResult.kind res \<noteq> CLASS \<and> InspectionResult.kind res \<noteq> MODULE
               \<and> InspectionResult.kind res \<noteq> PACKAGE \<and> has_dot path
               \<longrightarrow> info_qualified_name (info res) = path"
      using cases i by (auto dest: leaf_info_dotted)
    have "\<exists>ob mp attrs. resolve_dotted_path p path = Inr (ob, mp, attrs)
             \<and> (InspectionResult.kind res = CLASS
                  \<longrightarrow> info_qualified_name (info res) = path)
             \<and> (InspectionResult.kind res = MODULE \<or> InspectionResult.kind res = PACKAGE
                  \<longrightarrow> info_qualified_name (info res) = dunder_name p ob)
             \<and> (InspectionResult.kind res \<noteq> CLASS \<and> InspectionResult.kind res \<noteq> MODULE
                  \<and> InspectionResult.kind res \<noteq> PACKAGE \<and> has_dot path
                  \<longrightarrow> info_qualified_name (info res) = path)"
      using r c m l by (intro exI [of _ ob] exI [of _ mp] exI [of _ attrs]) simp
    with b t rp show ?thesis by simp
  next
    assume "\<exists>e. inspect_body p path ip ii = Inl e \<and> is_Exception e \<and> res = degraded path e"
    then obtain e where res: "res = degraded path e" by blast
    from degraded_fields [of path e] show ?thesis
      unfolding res by simp
  qed
qed

text \<open>
  In \<open>demo\<close>, the path \<open>pkg.sub.Widget\<close> resolves to a class and \<open>pkg.sub.helper\<close> to a
  function: in both envelopes the resolved path and the qualified name are the path. The
  path \<open>pkg.sub\<close> resolves to a module whose \<open>__name__\<close> is \<open>pkg.sub\<close>.
\<close>

theorem inspect_path_resolved_and_qualified_name_witness:
  "\<not> isl (inspect_path demo ''pkg.sub.Widget'' False False)
   \<and> error (projr (inspect_path demo ''pkg.sub.Widget'' False False)) = None
   \<and> InspectionResult.kind (projr (inspect_path demo ''pkg.sub.Widget'' False False)) = CLASS
   \<and> resolved_path (projr (inspect_path demo ''pkg.sub.Widget'' False False))
       = ''pkg.sub.Widget''
   \<and> info_qualified_name (info (projr (inspect_path demo ''pkg.sub.Widget'' False False)))
       = ''pkg.sub.Widget''
   \<and> \<not> isl (inspect_path demo ''pkg.sub.helper'' False False)
   \<and> InspectionResult.kind (projr (inspect_path demo ''pkg.sub.helper'' False False))
       = FUNCTION
   \<and> has_dot ''pkg.sub.helper''
   \<and> info_qualified_name (info (projr (inspect_path demo ''pkg.sub.helper'' False False)))
       = ''pkg.sub.helper''
   \<and> \<not> isl (inspect_path demo ''pkg.sub'' False False)
   \<and> InspectionResult.kind (projr (inspect_path demo ''pkg.sub'' False False)) = MODULE
   \<and> dunder_name demo 2 = ''pkg.sub''
   \<and> info_qualified_name (info (projr (inspect_path demo ''pkg.sub'' False False)))
       = ''pkg.sub''"
proof -
  have ok: "\<not> isl (inspect_path demo ''pkg.sub.Widget'' False False)" by code_simp
  then obtain res where res: "inspect_path demo ''pkg.sub.Widget'' False False = Inr res"
    by (cases "inspect_path demo ''pkg.sub.Widget'' False False") auto
  have "error (projr (inspect_path demo ''pkg.sub.Widget'' False False)) = None
        \<and> InspectionResult.kind (projr (inspect_path demo ''pkg.sub.Widget'' False False))
            = CLASS"
    by code_simp
  with res have e: "error res = None" and k: "InspectionResult.kind res = CLASS" by simp_all
  from inspect_path_resolved_and_qualified_name
         [of demo "''pkg.sub.Widget''" False False res] res e k
  have w: "resolved_path res = ''pkg.sub.Widget''
           \<and> info_qualified_name (info res) = ''pkg.sub.Widget''"
    by auto
  have okh: "\<not> isl (inspect_path demo ''pkg.sub.helper'' False False)" by code_simp
  then obtain rh where rh: "inspect_path demo ''pkg.sub.helper'' False False = Inr rh"
    by (cases "inspect_path demo ''pkg.sub.helper'' False False") auto
  have "error (projr (inspect_path demo ''pkg.sub.helper'' False False)) = None
        \<and> InspectionResult.kind (projr (inspect_path demo ''pkg.sub.helper'' False False))
            = FUNCTION"
    by code_simp
  with rh have eh: "error rh = None" and kh: "InspectionResult.kind rh = FUNCTION"
    by simp_all
  have hd: "has_dot ''pkg.sub.helper''" by code_simp
  from inspect_path_resolved_and_qualified_name
         [of demo "''pkg.sub.helper''" False False rh] rh eh kh hd
  have wh: "info_qualified_name (info rh) = ''pkg.sub.helper''"
    by auto
  have okm: "\<not> isl (inspect_path demo ''pkg.sub'' False False)" by code_simp
  then obtain rm where rm: "inspect_path demo ''pkg.sub'' False False = Inr rm"
    by (cases "inspect_path demo ''pkg.sub'' False False") auto
  have "error (projr (inspect_path demo ''pkg.sub'' False False)) = None
        \<and> InspectionResult.kind (projr (inspect_path demo ''pkg.sub'' False False))
            = MODULE"
    by code_simp
  with rm have em: "error rm = None" and km: "InspectionResult.kind rm = MODULE"
    by simp_all
  have rs: "resolve_dotted_path demo ''pkg.sub'' = Inr (2, ''pkg.sub'', [])" by code_simp
  have dn: "dunder_name demo 2 = ''pkg.sub''" by code_simp
  from inspect_path_resolved_and_qualified_name
         [of demo "''pkg.sub''" False False rm] rm em km rs
  have "info_qualified_name (info rm) = dunder_name demo 2"
    by auto
  with dn have wm: "info_qualified_name (info rm) = ''pkg.sub''" by simp
  from ok res e k w okh rh kh hd wh okm rm km dn wm show ?thesis by simp
qed

section \<open>What can leave inspect_path\<close>











lemma safe_repr_raises: "safe_repr p ob = Inl e \<Longrightarrow> \<not> is_Exception e"
  by (auto simp: safe_repr_def split: sum.splits if_splits)






















end
